theory Spec2Isabelle
  imports Complex_Main
begin

section \<open>Diurnal extrema of a time-indexed signal (diurnal.py)\<close>

text \<open>
  A shallow embedding of the extraction engine of \<^verbatim>\<open>diurnal.py\<close>.  Every function of
  the source that a property below talks about is a HOL function of the same name.
  An exception is a value \<open>Inl e\<close> of a sum type, the instance's attributes are passed
  as arguments, and the pseudo-random choice of \<^verbatim>\<open>random.randint\<close> is read from an
  explicit tape.
\<close>

subsection \<open>Python values, exceptions, timestamps\<close>

text \<open>
  A \<^verbatim>\<open>pd.Timestamp\<close> is its number of nanoseconds since the epoch (all timestamps are
  timezone-naive after \<^verbatim>\<open>__init__\<close>), a \<^verbatim>\<open>pd.Timedelta\<close> a number of nanoseconds, a
  \<^verbatim>\<open>pd.Period\<close> of frequency \<^verbatim>\<open>'D'\<close> the number of its day.  Sample values are
  modelled as real numbers: the properties below only compare and subtract them.
\<close>

type_synonym timestamp = int
type_synonym timedelta = int
type_synonym period = int

text \<open>
  The exceptions of the source, one constructor per \<^verbatim>\<open>raise\<close> statement, and the
  exceptions the Python runtime and the library raise on the paths modelled here.
\<close>

datatype error =
    InvalidMode            \<comment> \<open>\<^verbatim>\<open>ValueError\<close> of \<^verbatim>\<open>check_input\<close>\<close>
  | InvalidLength          \<comment> \<open>\<^verbatim>\<open>ValueError\<close> of \<^verbatim>\<open>check_length\<close>\<close>
  | InvalidWindow          \<comment> \<open>\<^verbatim>\<open>ValueError('Window invalid: end of window before start')\<close>\<close>
  | TypeMismatch           \<comment> \<open>\<^verbatim>\<open>TypeError\<close> of \<^verbatim>\<open>start_before_end\<close>\<close>
  | InvalidCalibration     \<comment> \<open>\<^verbatim>\<open>ValueError('Calibration timerange is not valid')\<close>\<close>
  | DayNotFound            \<comment> \<open>\<^verbatim>\<open>ValueError('date=... not found in dataframe index')\<close>\<close>
  | PyTypeError            \<comment> \<open>unpacking \<^verbatim>\<open>None\<close>, a string added to a \<^verbatim>\<open>pd.Period\<close>, arithmetic on a timestamp\<close>
  | PyAttributeError       \<comment> \<open>a method looked up on \<^verbatim>\<open>None\<close> or on a \<^verbatim>\<open>str\<close>\<close>
  | PyIndexError           \<comment> \<open>\<^verbatim>\<open>index[0]\<close>, \<^verbatim>\<open>index[-1]\<close> of an empty index\<close>
  | PyKeyError             \<comment> \<open>a label or a column that is not there\<close>
  | PyUnboundLocalError    \<comment> \<open>a local variable read before any branch assigned it\<close>
  | PyZeroDivisionError
  | ZeroFrequency          \<comment> \<open>rounding to the frequency \<^verbatim>\<open>'0s'\<close>: \<^verbatim>\<open>ZeroDivisionError\<close> or \<^verbatim>\<open>ValueError('Division by zero in rounding')\<close>, by the version of the library\<close>
  | PyValueError           \<comment> \<open>a \<^verbatim>\<open>ValueError\<close> of the library or the runtime (\<^verbatim>\<open>idxmin\<close> of an empty series, a tuple that does not fit the cells set, unpacking a wrong number of values)\<close>

text \<open>The Python objects that are stored in a cell of the result table.\<close>

datatype pyobj =
    PNone
  | PFloat real
  | PTimestamp timestamp

subsection \<open>The result table\<close>

text \<open>
  \<^verbatim>\<open>pd.DataFrame(self.diurnal_vals).set_index('Date')\<close>: one row per retained day, in
  the order of the days.  In a numeric column \<^verbatim>\<open>None\<close> is the missing value \<^verbatim>\<open>NaN\<close>.
\<close>

record daily_record =
  Date :: period
  min_val :: pyobj
  min_time :: pyobj
  max_val :: pyobj
  max_time :: pyobj

type_synonym dataframe = "daily_record list"

text \<open>
  Elementwise subtraction of two cells of numeric columns.  The result \<open>None\<close> is
  \<^verbatim>\<open>NaN\<close>: a missing operand gives a missing difference.  A cell that holds a
  timestamp has no difference with a number.
\<close>

fun py_sub :: "pyobj \<Rightarrow> pyobj \<Rightarrow> error + real option" where
  "py_sub (PFloat a) (PFloat b) = Inr (Some (a - b))"
| "py_sub (PFloat a) PNone = Inr None"
| "py_sub PNone (PFloat b) = Inr None"
| "py_sub PNone PNone = Inr None"
| "py_sub _ _ = Inl PyTypeError"

text \<open>\<^verbatim>\<open>x < threshold\<close> on a numeric column: a comparison with \<^verbatim>\<open>NaN\<close> is false.\<close>

fun nan_lt :: "real option \<Rightarrow> real \<Rightarrow> bool" where
  "nan_lt None t = False"
| "nan_lt (Some a) t = (a < t)"

text \<open>
  \<^verbatim>\<open>
  def amplitude(self):
      return self.df['max_val']-self.df['min_val']
  \<close>
\<close>

fun amplitude :: "dataframe \<Rightarrow> error + real option list" where
  "amplitude [] = Inr []"
| "amplitude (r # df) =
     (case py_sub (max_val r) (min_val r) of
        Inl e \<Rightarrow> Inl e
      | Inr a \<Rightarrow> (case amplitude df of Inl e \<Rightarrow> Inl e | Inr as \<Rightarrow> Inr (a # as)))"

text \<open>\<^verbatim>\<open>df.drop(labels)\<close>: every row whose index label is one of \<open>labels\<close> goes.\<close>

definition drop_labels :: "period list \<Rightarrow> dataframe \<Rightarrow> dataframe" where
  "drop_labels labels df = filter (\<lambda>r. Date r \<notin> set labels) df"

text \<open>
  \<^verbatim>\<open>
  def apply_threshold(self):
      if self.threshold is not None:
          self.df.drop(self.df[(self.df.max_val - self.df.min_val)
                               < self.threshold].index, inplace=True)
  \<close>
  The boolean mask selects the rows whose amplitude is below the threshold, \<^verbatim>\<open>.index\<close>
  is the list of their labels, and \<^verbatim>\<open>drop\<close> removes the rows with these labels.
\<close>

definition apply_threshold :: "real option \<Rightarrow> dataframe \<Rightarrow> error + dataframe" where
  "apply_threshold thr df =
     (case thr of
        None \<Rightarrow> Inr df
      | Some t \<Rightarrow>
          (case amplitude df of
             Inl e \<Rightarrow> Inl e
           | Inr amps \<Rightarrow>
               Inr (drop_labels
                      (map (\<lambda>ra. Date (fst ra)) (filter (\<lambda>ra. nan_lt (snd ra) t) (zip df amps)))
                      df)))"

text \<open>
  The tables that the extraction pass builds: value cells hold a number or nothing,
  and no day occurs twice (the loop runs over \<^verbatim>\<open>to_period('D').unique()\<close>).
\<close>

fun is_numeric :: "pyobj \<Rightarrow> bool" where
  "is_numeric PNone = True"
| "is_numeric (PFloat a) = True"
| "is_numeric _ = False"

definition numeric_table :: "dataframe \<Rightarrow> bool" where
  "numeric_table df = list_all (\<lambda>r. is_numeric (min_val r) \<and> is_numeric (max_val r)) df"

text \<open>The amplitude of one row is below the threshold (false when it is missing).\<close>

definition below_threshold :: "real \<Rightarrow> daily_record \<Rightarrow> bool" where
  "below_threshold t r =
     (case py_sub (max_val r) (min_val r) of Inl e \<Rightarrow> False | Inr a \<Rightarrow> nan_lt a t)"

subsection \<open>Time arithmetic of the library\<close>

abbreviation ns_per_second :: int where "ns_per_second \<equiv> 1000000000"
abbreviation ns_per_minute :: int where "ns_per_minute \<equiv> 60000000000"
abbreviation ns_per_hour :: int where "ns_per_hour \<equiv> 3600000000000"
abbreviation ns_per_day :: int where "ns_per_day \<equiv> 86400000000000"

text \<open>\<^verbatim>\<open>Timedelta.components.minutes\<close> and \<^verbatim>\<open>Timedelta.components.seconds\<close>.\<close>

definition components_minutes :: "timedelta \<Rightarrow> int" where
  "components_minutes td = (td div ns_per_minute) mod 60"

definition components_seconds :: "timedelta \<Rightarrow> int" where
  "components_seconds td = (td div ns_per_second) mod 60"

text \<open>
  \<^verbatim>\<open>index.to_period('D')\<close> of one timestamp, and \<^verbatim>\<open>Period.to_timestamp(how='s')\<close>
  (also \<^verbatim>\<open>Period.start_time\<close>) and \<^verbatim>\<open>Period.to_timestamp(how='e')\<close>: the first and the
  last nanosecond of the day.
\<close>

definition to_period :: "timestamp \<Rightarrow> period" where
  "to_period t = t div ns_per_day"

definition start_time :: "period \<Rightarrow> timestamp" where
  "start_time day = day * ns_per_day"

definition end_time :: "period \<Rightarrow> timestamp" where
  "end_time day = (day + 1) * ns_per_day - 1"

text \<open>
  What is not modelled but taken as a parameter: the reading of strings by the library
  (\<^verbatim>\<open>pd.to_datetime\<close> of a date string, the cast of a string that is the bound of a label
  slice, where the side is \<open>''left''\<close> or \<open>''right''\<close>, and \<^verbatim>\<open>pd.Period(day)\<close> of a
  string), and the two places where the result depends on the arithmetic of doubles:
  \<^verbatim>\<open>round(sum(l) / len(l), 3)\<close>, as a function of the exact quotient, and
  \<^verbatim>\<open>pd.Timedelta(hours=h)\<close> for a float \<open>h\<close>.
\<close>

record pandas =
  to_datetime :: "string \<Rightarrow> error + timestamp"
  maybe_cast_slice_bound :: "string \<Rightarrow> string \<Rightarrow> error + timestamp"
  Period_of_string :: "string \<Rightarrow> error + period"
  float_round3 :: "real \<Rightarrow> real"
  Timedelta_hours :: "real \<Rightarrow> timedelta"

text \<open>
  \<^verbatim>\<open>Timestamp.floor(freq)\<close> and \<^verbatim>\<open>Timestamp.ceil(freq)\<close> for a frequency of \<open>unit\<close>
  nanoseconds: the nearest multiple of \<open>unit\<close> (counted from the epoch) below and
  above.  The library raises for a frequency of length zero.
\<close>

definition Timestamp_floor :: "int \<Rightarrow> timestamp \<Rightarrow> error + timestamp" where
  "Timestamp_floor unit t =
     (if unit = 0 then Inl ZeroFrequency else Inr (t - t mod unit))"

definition Timestamp_ceil :: "int \<Rightarrow> timestamp \<Rightarrow> error + timestamp" where
  "Timestamp_ceil unit t =
     (if unit = 0 then Inl ZeroFrequency else Inr (t + (- t) mod unit))"

text \<open>
  The missing timestamp \<^verbatim>\<open>pd.NaT\<close>, as the integer that the library stores for it.
  It is no \<^verbatim>\<open>pd.Timestamp\<close>, and no sample of a signal has it as its time.
\<close>

definition NaT :: timestamp where
  "NaT = - 9223372036854775808"

text \<open>
  \<^verbatim>\<open>Timestamp.round(freq)\<close> for a frequency of \<open>unit > 0\<close> nanoseconds: the nearest
  multiple, a tie going to the even multiple.
\<close>

definition Timestamp_round :: "int \<Rightarrow> timestamp \<Rightarrow> timestamp" where
  "Timestamp_round unit t =
     (let q = t div unit; r = t mod unit in
      if 2 * r < unit then q * unit
      else if unit < 2 * r then (q + 1) * unit
      else if even q then q * unit else (q + 1) * unit)"

text \<open>\<^verbatim>\<open>Timestamp.hour\<close>.\<close>

definition hour :: "timestamp \<Rightarrow> int" where
  "hour t = (t div ns_per_hour) mod 24"

text \<open>
  \<^verbatim>\<open>
  def make_end_of_day(timestamp: pd.Timestamp) -> pd.Timestamp:
      return timestamp.replace(hour=23, minute=59, second=59)
  \<close>
  The date and the part below one second stay.
\<close>

definition make_end_of_day :: "timestamp \<Rightarrow> timestamp" where
  "make_end_of_day t =
     start_time (to_period t) + 23 * ns_per_hour + 59 * ns_per_minute + 59 * ns_per_second
       + t mod ns_per_second"

subsection \<open>The signal\<close>

text \<open>
  A \<^verbatim>\<open>pd.Series\<close> with a \<^verbatim>\<open>DatetimeIndex\<close>: the list of its samples, each a timestamp and
  a value, in the order of the index.  The index of the signal is strictly increasing;
  on such an index a label slice \<^verbatim>\<open>ts[a:b]\<close> holds the samples with \<open>a \<le> t \<le> b\<close>,
  and an open bound (\<^verbatim>\<open>None\<close>) does not restrict.  As a bound of a slice \<^verbatim>\<open>NaT\<close> is
  ordered after every timestamp: \<^verbatim>\<open>ts[a:NaT]\<close> holds the samples from \<open>a\<close> on, and
  \<^verbatim>\<open>ts[NaT:b]\<close> is empty.
\<close>

type_synonym series = "(timestamp \<times> real) list"

definition index :: "series \<Rightarrow> timestamp list" where
  "index ts = map fst ts"

definition label_slice :: "series \<Rightarrow> timestamp option \<Rightarrow> timestamp option \<Rightarrow> series" where
  "label_slice ts lo hi =
     filter (\<lambda>s. (case lo of None \<Rightarrow> True | Some a \<Rightarrow> a \<noteq> NaT \<and> a \<le> fst s) \<and>
                 (case hi of None \<Rightarrow> True | Some b \<Rightarrow> b = NaT \<or> fst s \<le> b)) ts"

definition loc_slice :: "series \<Rightarrow> timestamp \<Rightarrow> timestamp \<Rightarrow> series" where
  "loc_slice ts a b = label_slice ts (Some a) (Some b)"

text \<open>
  A slice by positions, \<^verbatim>\<open>ts[i:j]\<close> with integers: Python's rule for a slice bound,
  where a negative bound counts from the end of the sequence.
\<close>

definition slice_bound :: "nat \<Rightarrow> int \<Rightarrow> nat" where
  "slice_bound n k = nat (if k < 0 then max 0 (int n + k) else min k (int n))"

definition iloc_slice :: "'a list \<Rightarrow> int \<Rightarrow> int \<Rightarrow> 'a list" where
  "iloc_slice xs i j =
     take (slice_bound (length xs) j - slice_bound (length xs) i)
          (drop (slice_bound (length xs) i) xs)"

text \<open>\<^verbatim>\<open>index.get_loc(label)\<close>: the position of a label, \<^verbatim>\<open>KeyError\<close> when it is absent.\<close>

fun get_loc :: "timestamp list \<Rightarrow> timestamp \<Rightarrow> error + int" where
  "get_loc [] b = Inl PyKeyError"
| "get_loc (t # ts) b =
     (if t = b then Inr 0
      else (case get_loc ts b of Inl e \<Rightarrow> Inl e | Inr i \<Rightarrow> Inr (i + 1)))"

text \<open>\<^verbatim>\<open>index.to_period('D').unique()\<close>: the days of the samples, each once, in the order
  in which they first occur.\<close>

fun unique_from :: "'a list \<Rightarrow> 'a list \<Rightarrow> 'a list" where
  "unique_from seen [] = []"
| "unique_from seen (x # xs) =
     (if x \<in> set seen then unique_from seen xs else x # unique_from (x # seen) xs)"

definition days_of :: "series \<Rightarrow> period list" where
  "days_of ts = unique_from [] (map to_period (index ts))"

text \<open>
  \<^verbatim>\<open>
  def get_max(ts: pd.Series) -> tuple:
      return ts.max(), ts.idxmax()
  def get_min(ts: pd.Series) -> tuple:
      return ts.min(), ts.idxmin()
  \<close>
  The largest (smallest) value and the label of its first occurrence; \<^verbatim>\<open>idxmax\<close> and
  \<^verbatim>\<open>idxmin\<close> raise \<^verbatim>\<open>ValueError\<close> on an empty series.
\<close>

definition get_max :: "series \<Rightarrow> error + (real \<times> timestamp)" where
  "get_max ts =
     (case ts of
        [] \<Rightarrow> Inl PyValueError
      | s # rest \<Rightarrow>
          (let m = fold (\<lambda>x best. if snd best < snd x then x else best) rest s
           in Inr (snd m, fst m)))"

definition get_min :: "series \<Rightarrow> error + (real \<times> timestamp)" where
  "get_min ts =
     (case ts of
        [] \<Rightarrow> Inl PyValueError
      | s # rest \<Rightarrow>
          (let m = fold (\<lambda>x best. if snd x < snd best then x else best) rest s
           in Inr (snd m, fst m)))"

subsection \<open>Small helpers of the source\<close>

text \<open>
  \<^verbatim>\<open>
  def check_input(value, *args):
      if value not in args:
          raise ValueError(...)
  def check_length(data, *args):
      if len(data) not in args:
          raise ValueError(...)
      else:
          length_ok = True
      return length_ok
  def _bool_is_same(val1, val2):
      return True if val1 == val2 else False
  \<close>
\<close>

definition check_input :: "string \<Rightarrow> string list \<Rightarrow> error + unit" where
  "check_input v args = (if v \<notin> set args then Inl InvalidMode else Inr ())"

definition check_length :: "'a list \<Rightarrow> nat list \<Rightarrow> error + bool" where
  "check_length data args = (if length data \<notin> set args then Inl InvalidLength else Inr True)"

definition bool_is_same :: "'a \<Rightarrow> 'a \<Rightarrow> bool" where
  "bool_is_same val1 val2 = (if val1 = val2 then True else False)"

text \<open>
  \<^verbatim>\<open>random.randint(a, b)\<close> with \<open>a \<le> b\<close>: some integer of \<open>a..b\<close>.  The choices are read
  from a tape of natural numbers, one per call, so that every run of the program is
  the run on some tape.
\<close>

type_synonym tape = "nat list"

fun randint :: "int \<Rightarrow> int \<Rightarrow> tape \<Rightarrow> int \<times> tape" where
  "randint a b [] = (a, [])"
| "randint a b (r # rs) = (a + int r mod (b - a + 1), rs)"

subsection \<open>The window resolver\<close>

text \<open>
  The window specifications: a tuple or list of bounds, a calendar day, an integer, or
  an object of another type.  A bound is a timestamp, a string, \<^verbatim>\<open>None\<close> or \<^verbatim>\<open>NaT\<close>.
\<close>

datatype bound = BTimestamp timestamp | BStr string | BNone | BNaT

datatype window = WSeq "bound list" | WPeriod period | WInt int | WOther

text \<open>
  \<^verbatim>\<open>
  def start_before_end(start, end) -> bool:
      start_first = False
      if isinstance(start, (pd.Timestamp, np.datetime64)) and isinstance(end, (pd.Timestamp, np.datetime64)):
          if start < end:
              start_first = True
          else:
              raise ValueError(f'Window invalid: end of window before start')
      else:
          raise TypeError(...)
      return start_first
  \<close>
\<close>

fun start_before_end :: "bound \<Rightarrow> bound \<Rightarrow> error + bool" where
  "start_before_end (BTimestamp start) (BTimestamp stop) =
     (if start < stop then Inr True else Inl InvalidWindow)"
| "start_before_end _ _ = Inl TypeMismatch"

text \<open>
  The first half of \<^verbatim>\<open>to_exact_indexing\<close> (up to the comment \<^verbatim>\<open># match data resolution\<close>):
  the values of the local variables \<^verbatim>\<open>start\<close> and \<^verbatim>\<open>end\<close> when the slice is taken.
  \<^verbatim>\<open>
  if isinstance(window, (tuple, list)):
      check_length(window, 2)
      start, end = window
      if isinstance(start, pd.Timestamp) and isinstance(end, pd.Timestamp):
          start_before_end(start, end)
      elif isinstance(start, str) and isinstance(end, str):
          if start == 'first':
              start = timeseries.index[0]
              end = make_end_of_day(pd.to_datetime(end))
          elif end == 'last':
              end = timeseries.index[-1]
              start = pd.to_datetime(start)
          else:
              start = pd.to_datetime(start)
              end = make_end_of_day(pd.to_datetime(end))
  elif isinstance(window, pd.Period):
      start = window.to_timestamp(how='s')
      end = window.to_timestamp(how='e')
  elif isinstance(window, int):
      start = timeseries.index[0]
      end = start + pd.Timedelta(days=window)
      end = make_end_of_day(end)
  \<close>
  A pair that is neither two timestamps nor two strings passes unchanged and
  unchecked; for a window of no listed type nothing is assigned, and reading \<^verbatim>\<open>start\<close>
  raises \<^verbatim>\<open>UnboundLocalError\<close>.
\<close>

definition string_bounds :: "pandas \<Rightarrow> string \<Rightarrow> string \<Rightarrow> series \<Rightarrow> error + (bound \<times> bound)" where
  "string_bounds pd start stop timeseries =
     (if start = ''first'' then
        (case timeseries of
           [] \<Rightarrow> Inl PyIndexError
         | s # _ \<Rightarrow>
             (case to_datetime pd stop of
                Inl e \<Rightarrow> Inl e
              | Inr t \<Rightarrow> Inr (BTimestamp (fst s), BTimestamp (make_end_of_day t))))
      else if stop = ''last'' then
        (case timeseries of
           [] \<Rightarrow> Inl PyIndexError
         | _ # _ \<Rightarrow>
             (case to_datetime pd start of
                Inl e \<Rightarrow> Inl e
              | Inr t \<Rightarrow> Inr (BTimestamp t, BTimestamp (fst (last timeseries)))))
      else
        (case to_datetime pd start of
           Inl e \<Rightarrow> Inl e
         | Inr t0 \<Rightarrow>
             (case to_datetime pd stop of
                Inl e \<Rightarrow> Inl e
              | Inr t1 \<Rightarrow> Inr (BTimestamp t0, BTimestamp (make_end_of_day t1)))))"

fun pair_bounds :: "pandas \<Rightarrow> bound \<Rightarrow> bound \<Rightarrow> series \<Rightarrow> error + (bound \<times> bound)" where
  "pair_bounds pd (BTimestamp start) (BTimestamp stop) timeseries =
     (case start_before_end (BTimestamp start) (BTimestamp stop) of
        Inl e \<Rightarrow> Inl e
      | Inr _ \<Rightarrow> Inr (BTimestamp start, BTimestamp stop))"
| "pair_bounds pd (BStr start) (BStr stop) timeseries = string_bounds pd start stop timeseries"
| "pair_bounds pd start stop timeseries = Inr (start, stop)"

definition window_bounds :: "pandas \<Rightarrow> window \<Rightarrow> series \<Rightarrow> error + (bound \<times> bound)" where
  "window_bounds pd win timeseries =
     (case win of
        WSeq bs \<Rightarrow>
          (case check_length bs [2] of
             Inl e \<Rightarrow> Inl e
           | Inr _ \<Rightarrow>
               (case bs of
                  [start, stop] \<Rightarrow> pair_bounds pd start stop timeseries
                | _ \<Rightarrow> Inl InvalidLength))
      | WPeriod day \<Rightarrow> Inr (BTimestamp (start_time day), BTimestamp (end_time day))
      | WInt n \<Rightarrow>
          (case timeseries of
             [] \<Rightarrow> Inl PyIndexError
           | s # _ \<Rightarrow>
               Inr (BTimestamp (fst s), BTimestamp (make_end_of_day (fst s + n * ns_per_day))))
      | WOther \<Rightarrow> Inl PyUnboundLocalError)"

text \<open>
  \<^verbatim>\<open>timeseries[start:end]\<close> for the bounds as they stand: the library casts a string
  bound itself, \<^verbatim>\<open>None\<close> is an open bound.
\<close>

fun cast_bound :: "pandas \<Rightarrow> string \<Rightarrow> bound \<Rightarrow> error + timestamp option" where
  "cast_bound pd side (BTimestamp t) = Inr (Some t)"
| "cast_bound pd side BNone = Inr None"
| "cast_bound pd side BNaT = Inr (Some NaT)"
| "cast_bound pd side (BStr s) =
     (case maybe_cast_slice_bound pd side s of Inl e \<Rightarrow> Inl e | Inr t \<Rightarrow> Inr (Some t))"

definition bound_slice :: "pandas \<Rightarrow> series \<Rightarrow> bound \<Rightarrow> bound \<Rightarrow> error + series" where
  "bound_slice pd timeseries start stop =
     (case cast_bound pd ''left'' start of
        Inl e \<Rightarrow> Inl e
      | Inr lo \<Rightarrow>
          (case cast_bound pd ''right'' stop of
             Inl e \<Rightarrow> Inl e
           | Inr hi \<Rightarrow> Inr (label_slice timeseries lo hi)))"

text \<open>
  \<^verbatim>\<open>start.ceil(window_res)\<close> and \<^verbatim>\<open>end.floor(window_res)\<close>: a string and \<^verbatim>\<open>None\<close> have no
  such method, and the methods of \<^verbatim>\<open>NaT\<close> return \<^verbatim>\<open>NaT\<close>.
\<close>

fun bound_ceil :: "int \<Rightarrow> bound \<Rightarrow> error + timestamp" where
  "bound_ceil unit (BTimestamp t) = Timestamp_ceil unit t"
| "bound_ceil unit BNaT = Inr NaT"
| "bound_ceil unit _ = Inl PyAttributeError"

fun bound_floor :: "int \<Rightarrow> bound \<Rightarrow> error + timestamp" where
  "bound_floor unit (BTimestamp t) = Timestamp_floor unit t"
| "bound_floor unit BNaT = Inr NaT"
| "bound_floor unit _ = Inl PyAttributeError"

text \<open>
  The length in nanoseconds of the frequency \<^verbatim>\<open>window_res\<close>:
  \<^verbatim>\<open>
  window_res = str(time_between_data.components.minutes)+'T'
  if time_between_data.components.minutes == 0:
      window_res = str(time_between_data.components.seconds)+'s'
  \<close>
\<close>

definition window_res :: "timedelta \<Rightarrow> int" where
  "window_res time_between_data =
     (if components_minutes time_between_data = 0
      then components_seconds time_between_data * ns_per_second
      else components_minutes time_between_data * ns_per_minute)"

text \<open>
  \<^verbatim>\<open>
  def to_exact_indexing(window, timeseries):
      ...
      # match data resolution
      subset = timeseries[start:end]
      if not subset.empty and len(subset) > 2:
          idx = random.randint(1, len(subset)-1)
          time_between_data = subset.index[idx]-subset.index[idx-1]
          ...
          exact_window = (start.ceil(window_res), end.floor(window_res))
      else:
          exact_window = None
      return exact_window
  \<close>
\<close>

definition to_exact_indexing ::
  "pandas \<Rightarrow> window \<Rightarrow> series \<Rightarrow> tape \<Rightarrow> error + ((timestamp \<times> timestamp) option \<times> tape)" where
  "to_exact_indexing pd win timeseries tape =
     (case window_bounds pd win timeseries of
        Inl e \<Rightarrow> Inl e
      | Inr (start, stop) \<Rightarrow>
          (case bound_slice pd timeseries start stop of
             Inl e \<Rightarrow> Inl e
           | Inr subset' \<Rightarrow>
               if subset' \<noteq> [] \<and> length subset' > 2 then
                 (let (idx, tape') = randint 1 (int (length subset') - 1) tape;
                      time_between_data =
                        index subset' ! nat idx - index subset' ! nat (idx - 1)
                  in case bound_ceil (window_res time_between_data) start of
                       Inl e \<Rightarrow> Inl e
                     | Inr w0 \<Rightarrow>
                         (case bound_floor (window_res time_between_data) stop of
                            Inl e \<Rightarrow> Inl e
                          | Inr w1 \<Rightarrow> Inr (Some (w0, w1), tape')))
               else Inr (None, tape)))"

subsection \<open>The extremum locator and the boundary validator\<close>

text \<open>
  \<^verbatim>\<open>
  def get_extrema(self, ts: pd.Series, min_or_max: str) -> tuple:
      check_input(min_or_max, 'min', 'max')
      return get_max(ts) if min_or_max == 'max' else get_min(ts)
  \<close>
\<close>

definition get_extrema :: "series \<Rightarrow> string \<Rightarrow> error + (real \<times> timestamp)" where
  "get_extrema ts min_or_max =
     (case check_input min_or_max [''min'', ''max''] of
        Inl e \<Rightarrow> Inl e
      | Inr _ \<Rightarrow> if min_or_max = ''max'' then get_max ts else get_min ts)"

text \<open>
  \<^verbatim>\<open>new_tup[0] in extrema_tup\<close>: the new value equals the candidate's value or the
  candidate's timestamp.  A float and a timestamp are never equal.
\<close>

definition float_eq_timestamp :: "real \<Rightarrow> timestamp \<Rightarrow> bool" where
  "float_eq_timestamp v t = False"

definition in_extrema_tup :: "real \<Rightarrow> real \<times> timestamp \<Rightarrow> bool" where
  "in_extrema_tup v extrema_tup =
     (v = fst extrema_tup \<or> float_eq_timestamp v (snd extrema_tup))"

text \<open>
  \<^verbatim>\<open>
  def bool_check_around_bound(timeseries, bound, extrema_tup, val_type):
      check_input(val_type, 'min', 'max')
      bound_idx = timeseries.index.get_loc(bound)
      subset = timeseries[bound_idx-5:bound_idx+5]
      if len(subset) < 3:
          is_good_val = False
      else:
          new_tup = (subset.min(), subset.idxmin())
          if val_type == 'max':
              new_tup = (subset.max(), subset.idxmax())
          is_good_val = False
          if _bool_is_same(new_tup[1], extrema_tup[1]) or new_tup[0] in extrema_tup:
              is_good_val = True
      return is_good_val
  \<close>
\<close>

definition bool_check_around_bound ::
  "series \<Rightarrow> timestamp \<Rightarrow> real \<times> timestamp \<Rightarrow> string \<Rightarrow> error + bool" where
  "bool_check_around_bound timeseries bnd extrema_tup val_type =
     (case check_input val_type [''min'', ''max''] of
        Inl e \<Rightarrow> Inl e
      | Inr _ \<Rightarrow>
          (case get_loc (index timeseries) bnd of
             Inl e \<Rightarrow> Inl e
           | Inr bound_idx \<Rightarrow>
               (let subset' = iloc_slice timeseries (bound_idx - 5) (bound_idx + 5) in
                if length subset' < 3 then Inr False
                else
                  (case get_min subset' of
                     Inl e \<Rightarrow> Inl e
                   | Inr mn \<Rightarrow>
                       (case (if val_type = ''max'' then get_max subset' else Inr mn) of
                          Inl e \<Rightarrow> Inl e
                        | Inr new_tup \<Rightarrow>
                            Inr (bool_is_same (snd new_tup) (snd extrema_tup) \<or>
                                 in_extrema_tup (fst new_tup) extrema_tup))))))"

text \<open>
  \<^verbatim>\<open>
  def get_index_of_bound(timeseries: pd.Series, window: tuple, end_point: str):
      subset = timeseries[window[0]:window[1]]
      return subset.index[-1] if end_point == 'end' else subset.index[0]
  \<close>
\<close>

definition get_index_of_bound ::
  "series \<Rightarrow> timestamp \<times> timestamp \<Rightarrow> string \<Rightarrow> error + timestamp" where
  "get_index_of_bound timeseries win end_point =
     (let subset' = loc_slice timeseries (fst win) (snd win) in
      if subset' = [] then Inl PyIndexError
      else Inr (if end_point = ''end'' then last (index subset') else hd (index subset')))"

text \<open>
  The sample that stands for an edge of the window in \<^verbatim>\<open>on_boundary\<close>:
  \<^verbatim>\<open>
  if bound not in timeseries.index:
      bound = get_index_of_bound(timeseries, window, start_or_end[idx])
  \<close>
\<close>

definition edge_sample ::
  "series \<Rightarrow> timestamp \<times> timestamp \<Rightarrow> nat \<Rightarrow> timestamp \<Rightarrow> error + timestamp" where
  "edge_sample timeseries win idx bnd =
     (if bnd \<notin> set (index timeseries)
      then get_index_of_bound timeseries win ([''start'', ''end''] ! idx)
      else Inr bnd)"

text \<open>
  \<^verbatim>\<open>
  def on_boundary(timeseries, window, extrema_tuple, val_type) -> bool:
      extrema_val, extrema_time = extrema_tuple
      start_or_end = 'start', 'end'
      boundary_ok = True
      for idx, bound in enumerate(window):
          if boundary_ok == True:
              if bound not in timeseries.index:
                  bound = get_index_of_bound(timeseries, window, start_or_end[idx])
              if _bool_is_same(bound, extrema_time):
                  boundary_ok = bool_check_around_bound(timeseries, bound,
                                                        extrema_tuple, val_type)
      return boundary_ok
  \<close>
  The loop is modelled with a log of what it does: \<open>Examined idx\<close> when the body is
  entered for the edge \<open>idx\<close> (\<open>0\<close> the start, \<open>1\<close> the end) with \<^verbatim>\<open>boundary_ok\<close> true,
  \<open>Rechecked idx\<close> when \<^verbatim>\<open>bool_check_around_bound\<close> is called for it.  The result of
  \<^verbatim>\<open>on_boundary\<close> is the second component.
\<close>

datatype event = Examined nat | Rechecked nat

fun on_boundary_loop ::
  "series \<Rightarrow> timestamp \<times> timestamp \<Rightarrow> real \<times> timestamp \<Rightarrow> string \<Rightarrow>
     (nat \<times> timestamp) list \<Rightarrow> bool \<Rightarrow> event list \<Rightarrow> event list \<times> (error + bool)" where
  "on_boundary_loop timeseries win extrema_tuple val_type [] boundary_ok evs =
     (evs, Inr boundary_ok)"
| "on_boundary_loop timeseries win extrema_tuple val_type ((idx, bnd) # rest) boundary_ok evs =
     (if boundary_ok = True then
        (case edge_sample timeseries win idx bnd of
           Inl e \<Rightarrow> (evs @ [Examined idx], Inl e)
         | Inr bnd' \<Rightarrow>
             if bool_is_same bnd' (snd extrema_tuple) then
               (case bool_check_around_bound timeseries bnd' extrema_tuple val_type of
                  Inl e \<Rightarrow> (evs @ [Examined idx, Rechecked idx], Inl e)
                | Inr ok \<Rightarrow>
                    on_boundary_loop timeseries win extrema_tuple val_type rest ok
                      (evs @ [Examined idx, Rechecked idx]))
             else
               on_boundary_loop timeseries win extrema_tuple val_type rest boundary_ok
                 (evs @ [Examined idx]))
      else on_boundary_loop timeseries win extrema_tuple val_type rest boundary_ok evs)"

definition on_boundary_trace ::
  "series \<Rightarrow> timestamp \<times> timestamp \<Rightarrow> real \<times> timestamp \<Rightarrow> string \<Rightarrow>
     event list \<times> (error + bool)" where
  "on_boundary_trace timeseries win extrema_tuple val_type =
     on_boundary_loop timeseries win extrema_tuple val_type
       (enumerate 0 [fst win, snd win]) True []"

definition on_boundary ::
  "series \<Rightarrow> timestamp \<times> timestamp \<Rightarrow> real \<times> timestamp \<Rightarrow> string \<Rightarrow> error + bool" where
  "on_boundary timeseries win extrema_tuple val_type =
     snd (on_boundary_trace timeseries win extrema_tuple val_type)"

text \<open>
  \<^verbatim>\<open>
  def get_real_extrema(self, ts, window, min_or_max):
      check_input(min_or_max, 'min', 'max')
      window = to_exact_indexing(window, ts)
      extremaTuple = (None, None)
      if window is not None:
          extremaTuple = self.get_extrema(
              ts[window[0]:window[1]], min_or_max)
          if not on_boundary(ts, window, extremaTuple, min_or_max):
              extremaTuple = (None, None)
      return extremaTuple
  \<close>
\<close>

definition get_real_extrema ::
  "pandas \<Rightarrow> series \<Rightarrow> window \<Rightarrow> string \<Rightarrow> tape \<Rightarrow>
     error + ((real option \<times> timestamp option) \<times> tape)" where
  "get_real_extrema pd ts win min_or_max tape =
     (case check_input min_or_max [''min'', ''max''] of
        Inl e \<Rightarrow> Inl e
      | Inr _ \<Rightarrow>
          (case to_exact_indexing pd win ts tape of
             Inl e \<Rightarrow> Inl e
           | Inr (None, tape') \<Rightarrow> Inr ((None, None), tape')
           | Inr (Some exact, tape') \<Rightarrow>
               (case get_extrema (loc_slice ts (fst exact) (snd exact)) min_or_max of
                  Inl e \<Rightarrow> Inl e
                | Inr extremaTuple \<Rightarrow>
                    (case on_boundary ts exact extremaTuple min_or_max of
                       Inl e \<Rightarrow> Inl e
                     | Inr ok \<Rightarrow>
                         if \<not> ok then Inr ((None, None), tape')
                         else Inr ((Some (fst extremaTuple), Some (snd extremaTuple)), tape')))))"

subsection \<open>The occurrence predictor\<close>

text \<open>
  \<^verbatim>\<open>
  def add_occurance(occurance_time, occurance_list):
      occurance_list.append(occurance_time.round('H').hour)
      return occurance_list
  def mean_occurance(occurance_list: list) -> float:
      return round(sum(occurance_list) / len(occurance_list), 3)
  \<close>
  The mean is the library parameter \<open>float_round3\<close> of the exact quotient.
\<close>

definition add_occurance :: "timestamp option \<Rightarrow> int list \<Rightarrow> error + int list" where
  "add_occurance occurance_time occurance_list =
     (case occurance_time of
        None \<Rightarrow> Inl PyAttributeError
      | Some t \<Rightarrow> Inr (occurance_list @ [hour (Timestamp_round ns_per_hour t)]))"

definition mean_occurance :: "pandas \<Rightarrow> int list \<Rightarrow> error + real" where
  "mean_occurance pd occurance_list =
     (if length occurance_list = 0 then Inl PyZeroDivisionError
      else Inr (float_round3 pd
                  (of_int (sum_list occurance_list) / of_int (int (length occurance_list)))))"

text \<open>The configuration of an instance (the arguments of \<^verbatim>\<open>__init__\<close> that the engine reads).\<close>

record config =
  minfirst :: bool
  maxnextday :: bool
  predictTiming :: bool
  window :: window
  threshold :: "real option"

text \<open>
  The window \<^verbatim>\<open>(minTime, minTime + pd.Timedelta(hours=18))\<close>.  When no minimum was
  found, \<^verbatim>\<open>minTime\<close> is \<^verbatim>\<open>None\<close>, and \<^verbatim>\<open>None + pd.Timedelta(hours=18)\<close> is \<^verbatim>\<open>NaT\<close>.
\<close>

fun after_minimum :: "timestamp option \<Rightarrow> window" where
  "after_minimum (Some minTime) =
     WSeq [BTimestamp minTime, BTimestamp (minTime + 18 * ns_per_hour)]"
| "after_minimum None = WSeq [BNone, BNaT]"

text \<open>
  The body of the loop of \<^verbatim>\<open>predict_extrema\<close>:
  \<^verbatim>\<open>
  for day in calib_data.index.to_period('D').unique():
      minVal, minTime = self.get_real_extrema(calib_data, day, 'min')
      if minTime and self.minfirst and self.maxnextday:
          maxVal, maxTime = self.get_real_extrema(calib_data,
                                                  (minTime, minTime + pd.Timedelta(hours=18)),
                                                  'max')
      else:
          maxVal, maxTime = self.get_real_extrema(calib_data, day, 'max')
      min_occurs, max_occurs = add_occurance(
          minTime, min_occurs), add_occurance(maxTime, max_occurs)
  \<close>
\<close>

fun predict_loop ::
  "pandas \<Rightarrow> config \<Rightarrow> series \<Rightarrow> period list \<Rightarrow> int list \<Rightarrow> int list \<Rightarrow> tape \<Rightarrow>
     error + ((int list \<times> int list) \<times> tape)" where
  "predict_loop pd cfg calib_data [] min_occurs max_occurs tape =
     Inr ((min_occurs, max_occurs), tape)"
| "predict_loop pd cfg calib_data (day # days) min_occurs max_occurs tape =
     (case get_real_extrema pd calib_data (WPeriod day) ''min'' tape of
        Inl e \<Rightarrow> Inl e
      | Inr ((minVal, minTime), tape1) \<Rightarrow>
          (case (case minTime of
                   Some t \<Rightarrow>
                     if minfirst cfg \<and> maxnextday cfg
                     then get_real_extrema pd calib_data (after_minimum (Some t)) ''max'' tape1
                     else get_real_extrema pd calib_data (WPeriod day) ''max'' tape1
                 | None \<Rightarrow> get_real_extrema pd calib_data (WPeriod day) ''max'' tape1) of
             Inl e \<Rightarrow> Inl e
           | Inr ((maxVal, maxTime), tape2) \<Rightarrow>
               (case add_occurance minTime min_occurs of
                  Inl e \<Rightarrow> Inl e
                | Inr min_occurs' \<Rightarrow>
                    (case add_occurance maxTime max_occurs of
                       Inl e \<Rightarrow> Inl e
                     | Inr max_occurs' \<Rightarrow>
                         predict_loop pd cfg calib_data days min_occurs' max_occurs' tape2))))"

text \<open>
  \<^verbatim>\<open>
  def predict_extrema(self):
      start_time, end_time = to_exact_indexing(self.window, self.timeseries)
      calib_data = self.timeseries[start_time:end_time]
      if calib_data.empty:
          raise ValueError('Calibration timerange is not valid')
      max_occurs, min_occurs = [], []
      for day in calib_data.index.to_period('D').unique():
          ...
      return mean_occurance(min_occurs), mean_occurance(max_occurs)
  \<close>
  Unpacking the result \<^verbatim>\<open>None\<close> of \<^verbatim>\<open>to_exact_indexing\<close> into two names raises
  \<^verbatim>\<open>TypeError\<close>.
\<close>

definition predict_extrema ::
  "pandas \<Rightarrow> config \<Rightarrow> series \<Rightarrow> tape \<Rightarrow> error + ((real \<times> real) \<times> tape)" where
  "predict_extrema pd cfg timeseries tape =
     (case to_exact_indexing pd (window cfg) timeseries tape of
        Inl e \<Rightarrow> Inl e
      | Inr (None, tape') \<Rightarrow> Inl PyTypeError
      | Inr (Some (start_time', end_time'), tape') \<Rightarrow>
          (let calib_data = loc_slice timeseries start_time' end_time' in
           if calib_data = [] then Inl InvalidCalibration
           else
             (case predict_loop pd cfg calib_data (days_of calib_data) [] [] tape' of
                Inl e \<Rightarrow> Inl e
              | Inr ((min_occurs, max_occurs), tape'') \<Rightarrow>
                  (case mean_occurance pd min_occurs of
                     Inl e \<Rightarrow> Inl e
                   | Inr mean_min \<Rightarrow>
                       (case mean_occurance pd max_occurs of
                          Inl e \<Rightarrow> Inl e
                        | Inr mean_max \<Rightarrow> Inr ((mean_min, mean_max), tape''))))))"

subsection \<open>The diurnal cycle extractor\<close>

text \<open>
  \<^verbatim>\<open>
  def create_timewindow(day, center, numhours):
      window_start = day.start_time + pd.Timedelta(hours=center-numhours)
      window_end = day.start_time + pd.Timedelta(hours=center+numhours)
      return window_start.round('s'), window_end.round('s')
  def get_occurance_windows(day, window_length, *args):
      return ([create_timewindow(day, time, window_length) for time in args])
  \<close>
\<close>

definition create_timewindow ::
  "pandas \<Rightarrow> period \<Rightarrow> real \<Rightarrow> real \<Rightarrow> timestamp \<times> timestamp" where
  "create_timewindow pd day center numhours =
     (Timestamp_round ns_per_second (start_time day + Timedelta_hours pd (center - numhours)),
      Timestamp_round ns_per_second (start_time day + Timedelta_hours pd (center + numhours)))"

definition get_occurance_windows ::
  "pandas \<Rightarrow> period \<Rightarrow> real \<Rightarrow> real list \<Rightarrow> (timestamp \<times> timestamp) list" where
  "get_occurance_windows pd day window_length args =
     map (\<lambda>time. create_timewindow pd day time window_length) args"

text \<open>Python's truth value of a float or \<^verbatim>\<open>None\<close>: \<^verbatim>\<open>None\<close> and \<^verbatim>\<open>0.0\<close> are false.\<close>

definition truthy :: "real option \<Rightarrow> bool" where
  "truthy v = (case v of None \<Rightarrow> False | Some x \<Rightarrow> x \<noteq> 0)"

text \<open>
  The test that skips a day:
  \<^verbatim>\<open>
  # check max value is larger than min
  if maxVal and minVal and minVal > maxVal:
      continue
  \<close>
\<close>

definition skip_day :: "real option \<Rightarrow> real option \<Rightarrow> bool" where
  "skip_day minVal maxVal =
     (if truthy maxVal then (if truthy minVal then the maxVal < the minVal else False) else False)"

definition cell_of_val :: "real option \<Rightarrow> pyobj" where
  "cell_of_val v = (case v of None \<Rightarrow> PNone | Some x \<Rightarrow> PFloat x)"

definition cell_of_time :: "timestamp option \<Rightarrow> pyobj" where
  "cell_of_time v = (case v of None \<Rightarrow> PNone | Some t \<Rightarrow> PTimestamp t)"

text \<open>
  The two extrema of one day, as the body of the loop of \<^verbatim>\<open>find_diurnal_extrema\<close>
  finds them.  \<^verbatim>\<open>predict_extrema\<close> is wrapped in \<^verbatim>\<open>functools.lru_cache\<close>: it runs at
  its first call, later calls return the stored result (\<open>cache\<close>).
  \<^verbatim>\<open>
  if self.predictTiming:
      minOccurs, maxOccurs = self.predict_extrema()
      min_window, max_window = get_occurance_windows(day, 8, minOccurs, maxOccurs)
      minVal, minTime = self.get_real_extrema(self.timeseries, min_window, 'min')
      if self.minfirst and minTime and max_window[0] < minTime:
          max_window = (minTime, max_window[1])
      maxVal, maxTime = self.get_real_extrema(self.timeseries, max_window, 'max')
  else:
      minVal, minTime = self.get_real_extrema(self.timeseries, day, 'min')
      if self.minfirst and self.maxnextday:
          maxVal, maxTime = self.get_real_extrema(self.timeseries,
                                                  (minTime, minTime + pd.Timedelta(hours=18)),
                                                  'max')
      elif not self.minfirst or not self.maxnextday:
          maxVal, maxTime = self.get_real_extrema(self.timeseries, day, 'max')
  \<close>
  In the second branch the window after the minimum is built whether or not a minimum
  was found.
\<close>

definition timestamp_pair :: "timestamp \<times> timestamp \<Rightarrow> window" where
  "timestamp_pair w = WSeq [BTimestamp (fst w), BTimestamp (snd w)]"

definition predicted_extrema ::
  "pandas \<Rightarrow> config \<Rightarrow> series \<Rightarrow> period \<Rightarrow> real \<times> real \<Rightarrow> tape \<Rightarrow>
     error + (((real option \<times> timestamp option) \<times> (real option \<times> timestamp option)) \<times> tape)" where
  "predicted_extrema pd cfg timeseries day occurs tape =
     (let min_window = get_occurance_windows pd day 8 [fst occurs, snd occurs] ! 0;
          max_window = get_occurance_windows pd day 8 [fst occurs, snd occurs] ! 1
      in case get_real_extrema pd timeseries (timestamp_pair min_window) ''min'' tape of
           Inl e \<Rightarrow> Inl e
         | Inr ((minVal, minTime), tape1) \<Rightarrow>
             (case get_real_extrema pd timeseries
                     (timestamp_pair
                        (case minTime of
                           Some t \<Rightarrow>
                             if minfirst cfg \<and> fst max_window < t then (t, snd max_window)
                             else max_window
                         | None \<Rightarrow> max_window))
                     ''max'' tape1 of
                Inl e \<Rightarrow> Inl e
              | Inr (mx, tape2) \<Rightarrow> Inr (((minVal, minTime), mx), tape2)))"

definition daily_extrema ::
  "pandas \<Rightarrow> config \<Rightarrow> series \<Rightarrow> period \<Rightarrow> tape \<Rightarrow>
     error + (((real option \<times> timestamp option) \<times> (real option \<times> timestamp option)) \<times> tape)" where
  "daily_extrema pd cfg timeseries day tape =
     (case get_real_extrema pd timeseries (WPeriod day) ''min'' tape of
        Inl e \<Rightarrow> Inl e
      | Inr ((minVal, minTime), tape1) \<Rightarrow>
          (case (if minfirst cfg \<and> maxnextday cfg
                 then get_real_extrema pd timeseries (after_minimum minTime) ''max'' tape1
                 else get_real_extrema pd timeseries (WPeriod day) ''max'' tape1) of
             Inl e \<Rightarrow> Inl e
           | Inr (mx, tape2) \<Rightarrow> Inr (((minVal, minTime), mx), tape2)))"

text \<open>
  The loop of \<^verbatim>\<open>find_diurnal_extrema\<close> over the days of the signal; \<open>diurnal_vals\<close> is
  the list \<^verbatim>\<open>self.diurnal_vals\<close>.
  \<^verbatim>\<open>
  for day in self.timeseries.index.to_period('D').unique():
      ...
      # check max value is larger than min
      if maxVal and minVal and minVal > maxVal:
          continue
      self.diurnal_vals.append({'Date': day,
                                'min_val': minVal,
                                'min_time': minTime,
                                'max_val': maxVal,
                                'max_time': maxTime})
  \<close>
\<close>

fun extrema_loop ::
  "pandas \<Rightarrow> config \<Rightarrow> series \<Rightarrow> period list \<Rightarrow> (real \<times> real) option \<Rightarrow> dataframe \<Rightarrow> tape \<Rightarrow>
     error + (dataframe \<times> tape)" where
  "extrema_loop pd cfg timeseries [] cache diurnal_vals tape = Inr (diurnal_vals, tape)"
| "extrema_loop pd cfg timeseries (day # days) cache diurnal_vals tape =
     (case (if predictTiming cfg then
              (case cache of
                 Some occurs \<Rightarrow> Inr (occurs, tape)
               | None \<Rightarrow> predict_extrema pd cfg timeseries tape)
            else Inr ((0, 0), tape)) of
        Inl e \<Rightarrow> Inl e
      | Inr (occurs, tape0) \<Rightarrow>
          (case (if predictTiming cfg
                 then predicted_extrema pd cfg timeseries day occurs tape0
                 else daily_extrema pd cfg timeseries day tape0) of
             Inl e \<Rightarrow> Inl e
           | Inr (((minVal, minTime), (maxVal, maxTime)), tape1) \<Rightarrow>
               extrema_loop pd cfg timeseries days
                 (if predictTiming cfg then Some occurs else cache)
                 (if skip_day minVal maxVal then diurnal_vals
                  else diurnal_vals @
                         [\<lparr>Date = day, min_val = cell_of_val minVal, min_time = cell_of_time minTime,
                           max_val = cell_of_val maxVal, max_time = cell_of_time maxTime\<rparr>])
                 tape1))"

text \<open>
  \<^verbatim>\<open>
  def find_diurnal_extrema(self):
      for day in ...:
          ...
      self.df = pd.DataFrame(self.diurnal_vals).set_index('Date')
      self.apply_threshold()
      return self.df
  \<close>
  A table built from no rows has no column \<^verbatim>\<open>'Date'\<close>: \<^verbatim>\<open>set_index\<close> raises
  \<^verbatim>\<open>KeyError\<close>.
\<close>

definition find_diurnal_extrema ::
  "pandas \<Rightarrow> config \<Rightarrow> series \<Rightarrow> tape \<Rightarrow> error + (dataframe \<times> tape)" where
  "find_diurnal_extrema pd cfg timeseries tape =
     (case extrema_loop pd cfg timeseries (days_of timeseries) None [] tape of
        Inl e \<Rightarrow> Inl e
      | Inr (diurnal_vals, tape') \<Rightarrow>
          if diurnal_vals = [] then Inl PyKeyError
          else
            (case apply_threshold (threshold cfg) diurnal_vals of
               Inl e \<Rightarrow> Inl e
             | Inr df \<Rightarrow> Inr (df, tape')))"

subsection \<open>The manual override\<close>

text \<open>
  The argument \<^verbatim>\<open>day\<close> of \<^verbatim>\<open>change_extrema_picks\<close> is a string or a \<^verbatim>\<open>pd.Period\<close>;
  \<^verbatim>\<open>pd.Period(day)\<close> is the index label.
  \<^verbatim>\<open>
  def add_time(day, time):
      return day+' '+str(time)
  def extrema_slice(day, times):
      return tuple(map(lambda x: add_time(day, x), times))
  \<close>
\<close>

datatype day_arg = DayStr string | DayPeriod period

fun Period :: "pandas \<Rightarrow> day_arg \<Rightarrow> error + period" where
  "Period pd (DayPeriod p) = Inr p"
| "Period pd (DayStr s) = Period_of_string pd s"

fun add_time :: "day_arg \<Rightarrow> string \<Rightarrow> error + string" where
  "add_time (DayStr day) time = Inr (day @ '' '' @ time)"
| "add_time (DayPeriod p) time = Inl PyTypeError"

fun extrema_slice :: "day_arg \<Rightarrow> string list \<Rightarrow> error + string list" where
  "extrema_slice day [] = Inr []"
| "extrema_slice day (x # times') =
     (case add_time day x of
        Inl e \<Rightarrow> Inl e
      | Inr l \<Rightarrow> (case extrema_slice day times' of Inl e \<Rightarrow> Inl e | Inr ls \<Rightarrow> Inr (l # ls)))"

text \<open>
  The argument \<^verbatim>\<open>new_extrema\<close>, and the object bound to \<^verbatim>\<open>value\<close>: a tuple of cell
  values, or one object that is no tuple.
\<close>

datatype pyarg = Obj pyobj | Tuple "pyobj list"

text \<open>
  The pair \<^verbatim>\<open>value, time\<close> of \<^verbatim>\<open>change_extrema_picks\<close>:
  \<^verbatim>\<open>
  if find_between:
      t0, t1 = extrema_slice(day, find_between)
      value, time = self.get_extrema(self.timeseries[t0:t1], which)
  else:
      value, time = new_extrema if isinstance(
          new_extrema, tuple) else None, None
  \<close>
  The right-hand side of the last assignment is the tuple of the conditional
  expression and \<^verbatim>\<open>None\<close>: \<^verbatim>\<open>value\<close> is bound to \<^verbatim>\<open>new_extrema\<close> itself when that is a
  tuple, and \<^verbatim>\<open>time\<close> to \<^verbatim>\<open>None\<close>.  \<open>find_between\<close> is the list of the two times of
  day, empty for the default \<^verbatim>\<open>False\<close>.
\<close>

definition new_pick ::
  "pandas \<Rightarrow> series \<Rightarrow> day_arg \<Rightarrow> string \<Rightarrow> pyarg \<Rightarrow> string list \<Rightarrow> error + (pyarg \<times> pyobj)" where
  "new_pick pd timeseries day which new_extrema find_between =
     (if find_between \<noteq> [] then
        (case extrema_slice day find_between of
           Inl e \<Rightarrow> Inl e
         | Inr [t0, t1] \<Rightarrow>
             (case bound_slice pd timeseries (BStr t0) (BStr t1) of
                Inl e \<Rightarrow> Inl e
              | Inr sl \<Rightarrow>
                  (case get_extrema sl which of
                     Inl e \<Rightarrow> Inl e
                   | Inr (v, t) \<Rightarrow> Inr (Obj (PFloat v), PTimestamp t)))
         | Inr _ \<Rightarrow> Inl PyValueError)
      else Inr (case new_extrema of Tuple xs \<Rightarrow> Tuple xs | Obj x \<Rightarrow> Obj PNone, PNone))"

text \<open>
  \<^verbatim>\<open>self.df.loc[idx, column] = value\<close> for the one cell of a row and a column.  The
  setter of the library reads a tuple as the list of the values for the cells
  addressed: a tuple of one element is unpacked, and for a tuple of another length it
  raises \<^verbatim>\<open>ValueError('Must have equal len keys and value when setting with an iterable')\<close>
  and writes nothing.
\<close>

fun loc_setitem :: "pyarg \<Rightarrow> error + pyobj" where
  "loc_setitem (Obj x) = Inr x"
| "loc_setitem (Tuple [x]) = Inr x"
| "loc_setitem (Tuple xs) = Inl PyValueError"

text \<open>
  \<^verbatim>\<open>self.df.loc[idx, which+'_val'] = value\<close> and then
  \<^verbatim>\<open>self.df.loc[idx, which+'_time'] = time\<close>, for one \<^verbatim>\<open>which\<close> of the loop.
\<close>

definition set_pick ::
  "period \<Rightarrow> string \<Rightarrow> pyarg \<Rightarrow> pyobj \<Rightarrow> dataframe \<Rightarrow> error + dataframe" where
  "set_pick idx which v t df =
     (case loc_setitem v of
        Inl e \<Rightarrow> Inl e
      | Inr x \<Rightarrow>
          Inr (map (\<lambda>r. if Date r = idx then
                           (if which = ''min'' then r\<lparr>min_val := x, min_time := t\<rparr>
                            else r\<lparr>max_val := x, max_time := t\<rparr>)
                         else r) df))"

fun set_picks ::
  "period \<Rightarrow> string list \<Rightarrow> pyarg \<Rightarrow> pyobj \<Rightarrow> dataframe \<Rightarrow> error + dataframe" where
  "set_picks idx [] v t df = Inr df"
| "set_picks idx (which # extrema) v t df =
     (case set_pick idx which v t df of
        Inl e \<Rightarrow> Inl e
      | Inr df' \<Rightarrow> set_picks idx extrema v t df')"

text \<open>
  \<^verbatim>\<open>
  def change_extrema_picks(self, day, which: str, new_extrema=None,
                           find_between=False, verbose=False):
      check_input(which, 'min', 'max', 'both')
      idx = pd.Period(day)
      if isinstance(self.df.index, pd.PeriodIndex) and idx not in self.df.index:
          raise ValueError(f'date={day} not found in dataframe index')
      extrema = ['min', 'max'] if which == 'both' else [which]
      ...
      if verbose:
          print(... f'   old extrema: {self.df.loc[idx, which+"_val"]}\n' ...)
      for which in extrema:
          self.df.loc[idx, which+'_val'] = value
          self.df.loc[idx, which+'_time'] = time
  \<close>
  With \<^verbatim>\<open>verbose\<close> the column \<^verbatim>\<open>which+"_val"\<close> is read, and there is no column
  \<^verbatim>\<open>both_val\<close>.
\<close>

definition change_extrema_picks ::
  "pandas \<Rightarrow> series \<Rightarrow> dataframe \<Rightarrow> day_arg \<Rightarrow> string \<Rightarrow> pyarg \<Rightarrow> string list \<Rightarrow> bool \<Rightarrow>
     error + dataframe" where
  "change_extrema_picks pd timeseries df day which new_extrema find_between verbose =
     (case check_input which [''min'', ''max'', ''both''] of
        Inl e \<Rightarrow> Inl e
      | Inr _ \<Rightarrow>
          (case Period pd day of
             Inl e \<Rightarrow> Inl e
           | Inr idx \<Rightarrow>
               if idx \<notin> set (map Date df) then Inl DayNotFound
               else
                 (case new_pick pd timeseries day which new_extrema find_between of
                    Inl e \<Rightarrow> Inl e
                  | Inr (v, t) \<Rightarrow>
                      if verbose \<and> which = ''both'' then Inl PyKeyError
                      else
                        set_picks idx
                          (if which = ''both'' then [''min'', ''max''] else [which]) v t df)))"

text \<open>
  A row whose two values are numbers different from zero has its minimum below or
  equal to its maximum.
\<close>

definition ordered_unless_zero :: "daily_record \<Rightarrow> bool" where
  "ordered_unless_zero r =
     (case (min_val r, max_val r) of
        (PFloat a, PFloat b) \<Rightarrow> a = 0 \<or> b = 0 \<or> a \<le> b
      | _ \<Rightarrow> True)"

subsection \<open>Example inputs\<close>

text \<open>The default configuration of \<^verbatim>\<open>__init__\<close>.\<close>

definition default_config :: config where
  "default_config =
     \<lparr>minfirst = True, maxnextday = True, predictTiming = False, window = WInt 4,
      threshold = None\<rparr>"

text \<open>
  Six samples of 1 January 1970, at 23:59:40, 23:59:41, 23:59:42, 23:59:52, 23:59:53
  and 23:59:54.
\<close>

definition late_signal :: series where
  "late_signal =
     [(86380000000000, 6), (86381000000000, 5), (86382000000000, 6),
      (86392000000000, - 1), (86393000000000, 0), (86394000000000, - 1)]"

text \<open>Two samples of one day, at 00:00:00 and 00:00:01.\<close>

definition short_signal :: series where
  "short_signal = [(0, 1), (1000000000, 2)]"

text \<open>
  Twelve samples, one every 30 minutes from 00:00; the first value is the smallest
  and the values rise.
\<close>

definition rising_signal :: series where
  "rising_signal =
     [(0, 1), (1800000000000, 2), (3600000000000, 3), (5400000000000, 4),
      (7200000000000, 5), (9000000000000, 6), (10800000000000, 7), (12600000000000, 8),
      (14400000000000, 9), (16200000000000, 10), (18000000000000, 11), (19800000000000, 12)]"

text \<open>Four samples of one day, one every hour from 00:00.\<close>

definition hourly_signal :: series where
  "hourly_signal =
     [(0, 12), (3600000000000, 10), (7200000000000, 11), (10800000000000, 13)]"

text \<open>
  Twelve samples, one every 30 minutes from 00:00, with the smallest value at 03:00
  and the largest at 04:30.
\<close>

definition wave_signal :: series where
  "wave_signal =
     [(0, 7), (1800000000000, 6), (3600000000000, 5), (5400000000000, 4),
      (7200000000000, 3), (9000000000000, 2), (10800000000000, 1), (12600000000000, 4),
      (14400000000000, 8), (16200000000000, 9), (18000000000000, 8), (19800000000000, 7)]"

text \<open>A table of three days: amplitudes 20 and 30, and a day whose maximum is missing.\<close>

definition example_table :: dataframe where
  "example_table =
     [\<lparr>Date = 18262, min_val = PFloat 10, min_time = PTimestamp 1577851200000000000,
        max_val = PFloat 30, max_time = PTimestamp 1577894400000000000\<rparr>,
      \<lparr>Date = 18263, min_val = PFloat 10, min_time = PTimestamp 1577937600000000000,
        max_val = PFloat 40, max_time = PTimestamp 1577980800000000000\<rparr>,
      \<lparr>Date = 18264, min_val = PFloat 10, min_time = PTimestamp 1578024000000000000,
        max_val = PNone, max_time = PNone\<rparr>]"

section \<open>Properties\<close>

subsection \<open>The threshold filter\<close>

lemma amplitude_numeric:
  "numeric_table df \<Longrightarrow>
     amplitude df = Inr (map (\<lambda>r. case py_sub (max_val r) (min_val r) of Inl e \<Rightarrow> None | Inr a \<Rightarrow> a) df)"
proof (induction df)
  case Nil
  then show ?case by simp
next
  case (Cons r df)
  then have n: "is_numeric (min_val r)" "is_numeric (max_val r)" and t: "numeric_table df"
    by (simp_all add: numeric_table_def)
  from n obtain a where "py_sub (max_val r) (min_val r) = Inr a"
    by (cases "max_val r"; cases "min_val r") auto
  with Cons.IH [OF t] show ?case by simp
qed

lemma numeric_table_filter: "numeric_table df \<Longrightarrow> numeric_table (filter P df)"
  by (simp add: numeric_table_def list_all_iff)

lemma threshold_labels:
  "map (\<lambda>ra. Date (fst ra)) (filter (\<lambda>ra. nan_lt (snd ra) t)
          (zip df (map (\<lambda>r. case py_sub (max_val r) (min_val r) of Inl e \<Rightarrow> None | Inr a \<Rightarrow> a) df)))
        = map Date (filter (below_threshold t) df)"
  by (induction df) (auto simp: below_threshold_def split: sum.splits)

lemma apply_threshold_labels:
  assumes "numeric_table df"
  shows "apply_threshold (Some t) df =
           Inr (drop_labels (map Date (filter (below_threshold t) df)) df)"
  by (simp add: apply_threshold_def amplitude_numeric [OF assms] threshold_labels)

lemma drop_labels_distinct:
  assumes "distinct (map Date df)"
  shows "drop_labels (map Date (filter P df)) df = filter (\<lambda>r. \<not> P r) df"
proof -
  have inj: "inj_on Date (set df)" using assms by (simp add: distinct_map)
  have "\<And>r. r \<in> set df \<Longrightarrow> (Date r \<notin> set (map Date (filter P df))) = (\<not> P r)"
    using inj by (auto simp: inj_on_def)
  then show ?thesis unfolding drop_labels_def by (intro filter_cong) auto
qed

lemma drop_labels_none: "filter P df = [] \<Longrightarrow> drop_labels (map Date (filter P df)) df = df"
  by (simp add: drop_labels_def)

lemma example_table_numeric: "numeric_table example_table"
  by (simp add: numeric_table_def example_table_def)

lemma example_table_distinct: "distinct (map Date example_table)"
  by (simp add: example_table_def)

text \<open>
  Claim C7.  With a threshold configured, the filter removes from a table of the
  extraction pass (numeric value cells, one row per day) exactly the days whose
  amplitude \<open>max_val - min_val\<close> is strictly less than the threshold, and applying it
  again with the same threshold to the filtered table removes nothing.
\<close>

theorem apply_threshold_exact_and_idempotent:
  assumes "numeric_table df" and "distinct (map Date df)"
  shows "apply_threshold (Some t) df = Inr (filter (\<lambda>r. \<not> below_threshold t r) df) \<and>
         apply_threshold (Some t) (filter (\<lambda>r. \<not> below_threshold t r) df)
           = Inr (filter (\<lambda>r. \<not> below_threshold t r) df)"
proof -
  let ?kept = "filter (\<lambda>r. \<not> below_threshold t r) df"
  have first: "apply_threshold (Some t) df = Inr ?kept"
    by (simp add: apply_threshold_labels [OF assms(1)] drop_labels_distinct [OF assms(2)])
  have "filter (below_threshold t) ?kept = []" by (simp add: filter_empty_conv)
  then have "drop_labels (map Date (filter (below_threshold t) ?kept)) ?kept = ?kept"
    by (rule drop_labels_none)
  then have "apply_threshold (Some t) ?kept = Inr ?kept"
    by (simp only: apply_threshold_labels [OF numeric_table_filter [OF assms(1)]])
  with first show ?thesis by simp
qed

theorem apply_threshold_exact_and_idempotent_witness:
  "numeric_table example_table \<and> distinct (map Date example_table) \<and>
   apply_threshold (Some 25) example_table = Inr (tl example_table) \<and>
   apply_threshold (Some 25) (tl example_table) = Inr (tl example_table)"
  using apply_threshold_exact_and_idempotent
          [OF example_table_numeric example_table_distinct, of 25]
  by (simp add: example_table_def below_threshold_def numeric_table_def)

text \<open>
  Claim C10.  A row of such a table whose minimum or maximum value is missing survives
  the filter for every threshold: its amplitude is missing, and a missing amplitude
  is not less than the threshold.
\<close>

theorem apply_threshold_keeps_missing:
  assumes "numeric_table df" and "distinct (map Date df)" and "r \<in> set df"
    and "min_val r = PNone \<or> max_val r = PNone"
  shows "\<exists>df'. apply_threshold (Some t) df = Inr df' \<and> r \<in> set df'"
proof -
  from assms(1,3) have "is_numeric (min_val r)" "is_numeric (max_val r)"
    by (simp_all add: numeric_table_def list_all_iff)
  with assms(4) have "\<not> below_threshold t r"
    by (cases "max_val r"; cases "min_val r") (auto simp: below_threshold_def)
  with assms(3) have "r \<in> set (filter (\<lambda>r. \<not> below_threshold t r) df)" by simp
  moreover have "apply_threshold (Some t) df = Inr (filter (\<lambda>r. \<not> below_threshold t r) df)"
    by (simp add: apply_threshold_labels [OF assms(1)] drop_labels_distinct [OF assms(2)])
  ultimately show ?thesis by blast
qed

theorem apply_threshold_keeps_missing_witness:
  "max_val (last example_table) = PNone \<and> last example_table \<in> set example_table \<and>
   (\<exists>df'. apply_threshold (Some 1000) example_table = Inr df' \<and> last example_table \<in> set df')"
proof -
  have m: "min_val (last example_table) = PNone \<or> max_val (last example_table) = PNone"
    by (simp add: example_table_def)
  have i: "last example_table \<in> set example_table"
    by (simp add: example_table_def)
  from apply_threshold_keeps_missing
         [OF example_table_numeric example_table_distinct i m, of 1000] i
  show ?thesis by (simp add: example_table_def)
qed

subsection \<open>The window resolver\<close>

lemma randint_range:
  assumes "a \<le> b"
  shows "a \<le> fst (randint a b tape) \<and> fst (randint a b tape) \<le> b"
proof (cases tape)
  case Nil
  with assms show ?thesis by simp
next
  case (Cons r rs)
  have lo: "0 \<le> int r mod (b - a + 1)" using assms by simp
  have "int r mod (b - a + 1) < b - a + 1"
    by (rule pos_mod_bound) (use assms in linarith)
  then have hi: "int r mod (b - a + 1) \<le> b - a" by linarith
  from lo hi Cons show ?thesis by simp
qed

text \<open>
  The grid is the minute component of the distance in whole minutes, or, when that is
  zero, its second component in whole seconds; hours and days do not count.
\<close>

lemma window_res_minutes_or_seconds:
  "window_res td =
     (if (td div 60000000000) mod 60 = 0
      then ((td div 1000000000) mod 60) * 1000000000
      else ((td div 60000000000) mod 60) * 60000000000)"
  by (simp add: window_res_def components_minutes_def components_seconds_def)

lemma window_res_nonneg: "0 \<le> window_res td"
  by (simp add: window_res_def components_minutes_def components_seconds_def)

lemma window_res_whole_hours: "window_res (k * 3600000000000) = 0"
proof -
  have m: "k * 3600000000000 div 60000000000 = k * 60"
    by simp
  have s: "k * 3600000000000 div 1000000000 = k * 3600"
    by simp
  show ?thesis
    by (simp only: window_res_def components_minutes_def components_seconds_def m s) simp
qed

lemma Timestamp_ceil_grid:
  assumes "0 < unit"
  shows "\<exists>w. Timestamp_ceil unit t = Inr w \<and> unit dvd w \<and> t \<le> w \<and> w < t + unit"
proof -
  let ?w = "t + (- t) mod unit"
  have "?w mod unit = (t + (- t)) mod unit" by (simp add: mod_simps)
  then have "unit dvd ?w" by (simp add: mod_eq_0_iff_dvd)
  moreover have "0 \<le> (- t) mod unit" "(- t) mod unit < unit" using assms by simp_all
  ultimately show ?thesis using assms by (simp add: Timestamp_ceil_def)
qed

lemma Timestamp_floor_grid:
  assumes "0 < unit"
  shows "\<exists>w. Timestamp_floor unit t = Inr w \<and> unit dvd w \<and> w \<le> t \<and> t < w + unit"
proof -
  let ?w = "t - t mod unit"
  have "unit dvd ?w" by (simp add: dvd_minus_mod)
  moreover have "0 \<le> t mod unit" "t mod unit < unit" using assms by simp_all
  ultimately show ?thesis using assms by (simp add: Timestamp_floor_def)
qed

lemma bound_slice_timestamps:
  "bound_slice pd ts (BTimestamp start) (BTimestamp stop) = Inr (loc_slice ts start stop)"
  by (simp add: bound_slice_def loc_slice_def)

text \<open>
  The second half of \<^verbatim>\<open>to_exact_indexing\<close> on a slice of more than 2 samples: the grid
  comes from the adjacent pair at the positions \<open>i - 1\<close> and \<open>i\<close> that
  \<^verbatim>\<open>random.randint\<close> chooses.
\<close>

lemma to_exact_indexing_choice:
  assumes "window_bounds pd win ts = Inr (start, stop)"
    and "bound_slice pd ts start stop = Inr sl"
    and "2 < length sl"
  shows "\<exists>i. 1 \<le> i \<and> i < length sl \<and>
           to_exact_indexing pd win ts tape =
             (case bound_ceil (window_res (index sl ! i - index sl ! (i - 1))) start of
                Inl e \<Rightarrow> Inl e
              | Inr w0 \<Rightarrow>
                  (case bound_floor (window_res (index sl ! i - index sl ! (i - 1))) stop of
                     Inl e \<Rightarrow> Inl e
                   | Inr w1 \<Rightarrow>
                       Inr (Some (w0, w1), snd (randint 1 (int (length sl) - 1) tape))))"
proof -
  obtain idx tape' where r: "randint 1 (int (length sl) - 1) tape = (idx, tape')"
    by (cases "randint 1 (int (length sl) - 1) tape")
  from assms(3) have "(1::int) \<le> int (length sl) - 1" by simp
  from randint_range [OF this, of tape] r
  have idx: "1 \<le> idx" "idx \<le> int (length sl) - 1" by simp_all
  define i where "i = nat idx"
  have i: "1 \<le> i" "i < length sl" "nat (idx - 1) = i - 1"
    using idx by (simp_all add: i_def nat_diff_distrib)
  have ne: "sl \<noteq> []" using assms(3) by auto
  have "to_exact_indexing pd win ts tape =
      (case bound_ceil (window_res (index sl ! i - index sl ! (i - 1))) start of
         Inl e \<Rightarrow> Inl e
       | Inr w0 \<Rightarrow>
           (case bound_floor (window_res (index sl ! i - index sl ! (i - 1))) stop of
              Inl e \<Rightarrow> Inl e
            | Inr w1 \<Rightarrow> Inr (Some (w0, w1), snd (randint 1 (int (length sl) - 1) tape))))"
    using assms(3) ne i
    by (simp add: to_exact_indexing_def assms(1,2) r i_def [symmetric] Let_def
        cong: sum.case_cong)
  with i(1,2) show ?thesis by blast
qed

text \<open>
  Where every adjacent pair of the slice gives the same grid, the choice does not
  matter.
\<close>

lemma to_exact_indexing_regular:
  assumes "window_bounds pd win ts = Inr (start, stop)"
    and "bound_slice pd ts start stop = Inr sl"
    and "2 < length sl"
    and "\<And>i. 1 \<le> i \<Longrightarrow> i < length sl \<Longrightarrow> window_res (index sl ! i - index sl ! (i - 1)) = u"
  shows "to_exact_indexing pd win ts tape =
           (case bound_ceil u start of
              Inl e \<Rightarrow> Inl e
            | Inr w0 \<Rightarrow>
                (case bound_floor u stop of
                   Inl e \<Rightarrow> Inl e
                 | Inr w1 \<Rightarrow>
                     Inr (Some (w0, w1), snd (randint 1 (int (length sl) - 1) tape))))"
proof -
  from to_exact_indexing_choice [OF assms(1,2,3), of tape] obtain i where
    i: "1 \<le> i" "i < length sl"
    and r: "to_exact_indexing pd win ts tape =
             (case bound_ceil (window_res (index sl ! i - index sl ! (i - 1))) start of
                Inl e \<Rightarrow> Inl e
              | Inr w0 \<Rightarrow>
                  (case bound_floor (window_res (index sl ! i - index sl ! (i - 1))) stop of
                     Inl e \<Rightarrow> Inl e
                   | Inr w1 \<Rightarrow>
                       Inr (Some (w0, w1), snd (randint 1 (int (length sl) - 1) tape))))"
    by blast
  from assms(4) [OF i] r show ?thesis by (simp only:)
qed

text \<open>
  A slice of fewer than 3 samples resolves to \<^verbatim>\<open>None\<close>.  On a slice of 3 samples or
  more whose chosen pair gives a grid that is not zero, the resolver returns \<open>start\<close>
  rounded up and \<open>stop\<close> rounded down to the grid: multiples of the grid, less than
  one grid step away from the raw bounds.  Where the chosen pair gives the grid zero,
  the resolver raises.
\<close>

lemma to_exact_indexing_grid:
  assumes "window_bounds pd win ts = Inr (BTimestamp start, BTimestamp stop)"
  shows "(length (loc_slice ts start stop) < 3 \<longrightarrow>
            to_exact_indexing pd win ts tape = Inr (None, tape)) \<and>
         (3 \<le> length (loc_slice ts start stop) \<longrightarrow>
            (\<exists>i u. 1 \<le> i \<and> i < length (loc_slice ts start stop) \<and>
               u = window_res (index (loc_slice ts start stop) ! i
                                - index (loc_slice ts start stop) ! (i - 1)) \<and>
               (0 < u \<longrightarrow>
                  (\<exists>w0 w1 tape'. to_exact_indexing pd win ts tape = Inr (Some (w0, w1), tape') \<and>
                     u dvd w0 \<and> start \<le> w0 \<and> w0 < start + u \<and>
                     u dvd w1 \<and> w1 \<le> stop \<and> stop < w1 + u)) \<and>
               (u \<le> 0 \<longrightarrow> to_exact_indexing pd win ts tape = Inl ZeroFrequency)))"
proof (intro conjI impI)
  assume "length (loc_slice ts start stop) < 3"
  then show "to_exact_indexing pd win ts tape = Inr (None, tape)"
    by (simp add: to_exact_indexing_def assms bound_slice_timestamps)
next
  let ?sl = "loc_slice ts start stop"
  assume "3 \<le> length ?sl"
  then have n: "2 < length ?sl" by simp
  from to_exact_indexing_choice [OF assms bound_slice_timestamps n, of tape] obtain i where
    i: "1 \<le> i" "i < length ?sl"
    and r0: "to_exact_indexing pd win ts tape =
             (case bound_ceil (window_res (index ?sl ! i - index ?sl ! (i - 1)))
                     (BTimestamp start) of
                Inl e \<Rightarrow> Inl e
              | Inr w0 \<Rightarrow>
                  (case bound_floor (window_res (index ?sl ! i - index ?sl ! (i - 1)))
                          (BTimestamp stop) of
                     Inl e \<Rightarrow> Inl e
                   | Inr w1 \<Rightarrow>
                       Inr (Some (w0, w1), snd (randint 1 (int (length ?sl) - 1) tape))))"
    by blast
  note r = r0 [unfolded bound_ceil.simps bound_floor.simps]
  define u where "u = window_res (index ?sl ! i - index ?sl ! (i - 1))"
  note r' = r [folded u_def]
  have pos: "0 < u \<longrightarrow>
      (\<exists>w0 w1 tape'. to_exact_indexing pd win ts tape = Inr (Some (w0, w1), tape') \<and>
         u dvd w0 \<and> start \<le> w0 \<and> w0 < start + u \<and>
         u dvd w1 \<and> w1 \<le> stop \<and> stop < w1 + u)"
  proof
    assume p: "0 < u"
    from Timestamp_ceil_grid [OF p, of start] obtain w0 where
      w0: "Timestamp_ceil u start = Inr w0" "u dvd w0" "start \<le> w0" "w0 < start + u"
      by blast
    from Timestamp_floor_grid [OF p, of stop] obtain w1 where
      w1: "Timestamp_floor u stop = Inr w1" "u dvd w1" "w1 \<le> stop" "stop < w1 + u"
      by blast
    have "to_exact_indexing pd win ts tape
            = Inr (Some (w0, w1), snd (randint 1 (int (length ?sl) - 1) tape))"
      by (simp add: r' w0(1) w1(1))
    with w0 w1 show "\<exists>w0 w1 tape'. to_exact_indexing pd win ts tape = Inr (Some (w0, w1), tape') \<and>
         u dvd w0 \<and> start \<le> w0 \<and> w0 < start + u \<and>
         u dvd w1 \<and> w1 \<le> stop \<and> stop < w1 + u"
      by blast
  qed
  have zero: "u \<le> 0 \<longrightarrow> to_exact_indexing pd win ts tape = Inl ZeroFrequency"
  proof
    assume "u \<le> 0"
    with window_res_nonneg [of "index ?sl ! i - index ?sl ! (i - 1)"] have "u = 0"
      by (simp add: u_def)
    then show "to_exact_indexing pd win ts tape = Inl ZeroFrequency"
      by (simp add: r' Timestamp_ceil_def)
  qed
  from i pos zero u_def
  show "\<exists>i u. 1 \<le> i \<and> i < length ?sl \<and>
               u = window_res (index ?sl ! i - index ?sl ! (i - 1)) \<and>
               (0 < u \<longrightarrow>
                  (\<exists>w0 w1 tape'. to_exact_indexing pd win ts tape = Inr (Some (w0, w1), tape') \<and>
                     u dvd w0 \<and> start \<le> w0 \<and> w0 < start + u \<and>
                     u dvd w1 \<and> w1 \<le> stop \<and> stop < w1 + u)) \<and>
               (u \<le> 0 \<longrightarrow> to_exact_indexing pd win ts tape = Inl ZeroFrequency)"
    by blast
qed

lemma hourly_signal_gaps:
  assumes "1 \<le> i" and "i < 4"
  shows "window_res (index hourly_signal ! i - index hourly_signal ! (i - 1)) = 0"
proof -
  from assms have "i = 1 \<or> i = 2 \<or> i = 3" by arith
  then have "index hourly_signal ! i - index hourly_signal ! (i - 1) = 1 * 3600000000000"
    by (elim disjE) (simp_all add: index_def hourly_signal_def)
  then show ?thesis by (simp only: window_res_whole_hours)
qed

lemma hourly_signal_day_slice:
  "loc_slice hourly_signal (start_time 0) (end_time 0) = hourly_signal"
  by (simp add: loc_slice_def label_slice_def hourly_signal_def start_time_def end_time_def
      NaT_def)

text \<open>
  Claim C6.  If the signal sliced to the raw range has fewer than 3 samples, the
  resolver returns \<^verbatim>\<open>None\<close>; otherwise it returns the pair of the raw start rounded
  up and the raw end rounded down to the grid estimated from one adjacent pair of
  samples of the slice (whole minutes, or whole seconds when the minute component is
  zero).

  The estimate of the code reads the minute and the second component of the distance
  and not its hours.  The day of \<open>hourly_signal\<close> has 4 samples, one hour apart: every
  adjacent pair gives the frequency \<^verbatim>\<open>'0s'\<close>, \<^verbatim>\<open>start.ceil('0s')\<close> raises, and so does the
  extraction pass on this signal, for every choice of \<^verbatim>\<open>random.randint\<close>.
\<close>

theorem to_exact_indexing_raises_on_hourly_signal:
  "length (loc_slice hourly_signal (start_time 0) (end_time 0)) = 4 \<and>
   to_exact_indexing pd (WPeriod 0) hourly_signal tape = Inl ZeroFrequency \<and>
   find_diurnal_extrema pd default_config hourly_signal tape = Inl ZeroFrequency"
proof -
  have n: "length (loc_slice hourly_signal (start_time 0) (end_time 0)) = 4"
    by (simp add: hourly_signal_day_slice) (simp add: hourly_signal_def)
  have b: "window_bounds pd (WPeriod 0) hourly_signal
             = Inr (BTimestamp (start_time 0), BTimestamp (end_time 0))"
    by (simp add: window_bounds_def)
  have s: "bound_slice pd hourly_signal (BTimestamp (start_time 0)) (BTimestamp (end_time 0))
             = Inr hourly_signal"
    by (simp add: bound_slice_timestamps hourly_signal_day_slice)
  have l: "2 < length hourly_signal" "length hourly_signal = 4"
    by (simp_all add: hourly_signal_def)
  have r: "to_exact_indexing pd (WPeriod 0) hourly_signal tape = Inl ZeroFrequency"
    using to_exact_indexing_regular [OF b s l(1), of 0 tape] hourly_signal_gaps
    by (simp add: l(2) Timestamp_ceil_def)
  have g: "get_real_extrema pd hourly_signal (WPeriod 0) ''min'' tape = Inl ZeroFrequency"
    by (simp add: get_real_extrema_def check_input_def r)
  have d: "days_of hourly_signal = [0]"
    by (simp add: days_of_def index_def hourly_signal_def to_period_def)
  have c: "predictTiming default_config = False"
    by (simp add: default_config_def)
  have "daily_extrema pd default_config hourly_signal 0 tape = Inl ZeroFrequency"
    by (simp add: daily_extrema_def g)
  then have "find_diurnal_extrema pd default_config hourly_signal tape = Inl ZeroFrequency"
    unfolding find_diurnal_extrema_def d by (simp add: c)
  with n r show ?thesis by simp
qed

lemma half_hour_gaps:
  assumes "index ts = index rising_signal" and "1 \<le> i" and "i < 12"
  shows "window_res (index ts ! i - index ts ! (i - 1)) = 1800000000000"
proof -
  from assms(2,3) have "i = 1 \<or> i = 2 \<or> i = 3 \<or> i = 4 \<or> i = 5 \<or> i = 6 \<or> i = 7 \<or> i = 8
      \<or> i = 9 \<or> i = 10 \<or> i = 11" by arith
  then have "index ts ! i - index ts ! (i - 1) = 1800000000000"
    unfolding assms(1)
    by (elim disjE) (simp_all add: index_def rising_signal_def)
  then show ?thesis
    by (simp add: window_res_def components_minutes_def)
qed

lemma wave_signal_index: "index wave_signal = index rising_signal"
  by (simp add: index_def wave_signal_def rising_signal_def)

lemma start_before_end_non_timestamp:
  "(\<forall>t. b \<noteq> BTimestamp t) \<Longrightarrow>
     start_before_end a b = Inl TypeMismatch \<and> start_before_end b a = Inl TypeMismatch"
  by (cases a; cases b) simp_all

text \<open>
  The failures of the resolver that the code does raise: a timestamp pair with
  \<open>end \<le> start\<close> fails with \<open>InvalidWindow\<close>, and a tuple or list whose length is not
  2 fails with the \<^verbatim>\<open>ValueError\<close> of \<^verbatim>\<open>check_length\<close>.
\<close>

lemma to_exact_indexing_inverted_pair:
  "stop \<le> start \<Longrightarrow>
     to_exact_indexing pd (WSeq [BTimestamp start, BTimestamp stop]) ts tape = Inl InvalidWindow"
  by (simp add: to_exact_indexing_def window_bounds_def check_length_def)

lemma to_exact_indexing_wrong_length:
  "length bs \<noteq> 2 \<Longrightarrow> to_exact_indexing pd (WSeq bs) ts tape = Inl InvalidLength"
  by (simp add: to_exact_indexing_def window_bounds_def check_length_def)

text \<open>
  Claim C9.  A timestamp pair with \<open>end \<le> start\<close> fails with \<open>InvalidWindow\<close>, as does
  a specification of malformed type or length, and a pair that mixes a timestamp with
  a bound that is no timestamp fails with \<open>TypeMismatch\<close>.

  \<^verbatim>\<open>start_before_end\<close> has the branch that raises \<^verbatim>\<open>TypeError\<close> for such a pair, but
  \<^verbatim>\<open>to_exact_indexing\<close> calls it only when both bounds are timestamps, and it has no
  branch for a window of another type.  The pair of a timestamp and \<^verbatim>\<open>None\<close> is sliced
  as it stands: on the two samples of \<open>short_signal\<close> the resolver returns \<^verbatim>\<open>None\<close> and
  nothing is raised, on \<open>wave_signal\<close> \<^verbatim>\<open>end.floor\<close> raises \<^verbatim>\<open>AttributeError\<close>.  For a
  window that is no tuple, list, period or integer no branch assigns \<^verbatim>\<open>start\<close>, and
  the slice raises \<^verbatim>\<open>UnboundLocalError\<close>.
\<close>

theorem to_exact_indexing_mixed_pair_and_unlisted_type:
  "to_exact_indexing pd (WSeq [BTimestamp 0, BNone]) short_signal tape = Inr (None, tape) \<and>
   to_exact_indexing pd (WSeq [BTimestamp 0, BNone]) wave_signal tape = Inl PyAttributeError \<and>
   to_exact_indexing pd WOther ts tape = Inl PyUnboundLocalError"
proof -
  have a: "to_exact_indexing pd (WSeq [BTimestamp 0, BNone]) short_signal tape = Inr (None, tape)"
    by (simp add: to_exact_indexing_def window_bounds_def check_length_def bound_slice_def
        label_slice_def short_signal_def NaT_def)
  have b: "window_bounds pd (WSeq [BTimestamp 0, BNone]) wave_signal = Inr (BTimestamp 0, BNone)"
    by (simp add: window_bounds_def check_length_def)
  have s: "bound_slice pd wave_signal (BTimestamp 0) BNone = Inr wave_signal"
    by (simp add: bound_slice_def label_slice_def wave_signal_def NaT_def)
  have l: "2 < length wave_signal" "length wave_signal = 12"
    by (simp_all add: wave_signal_def)
  have c: "to_exact_indexing pd (WSeq [BTimestamp 0, BNone]) wave_signal tape
             = Inl PyAttributeError"
    using to_exact_indexing_regular [OF b s l(1), of 1800000000000 tape]
      half_hour_gaps [OF wave_signal_index]
    by (simp add: l(2) Timestamp_ceil_def)
  have d: "to_exact_indexing pd WOther ts tape = Inl PyUnboundLocalError"
    by (simp add: to_exact_indexing_def window_bounds_def)
  from a c d show ?thesis by simp
qed

subsection \<open>The boundary validator\<close>

text \<open>
  The extremum locator: \<^verbatim>\<open>get_min\<close> returns the smallest value of the series together
  with the timestamp of its first occurrence, and \<^verbatim>\<open>get_max\<close> the largest.
\<close>

lemma fold_min_first:
  "fold (\<lambda>x best. if snd x < snd best then x else best) xs (s :: timestamp \<times> real) = m \<Longrightarrow>
   \<exists>pre post. s # xs = pre @ m # post \<and>
     (\<forall>x\<in>set pre. snd m < snd x) \<and> (\<forall>x\<in>set post. snd m \<le> snd x)"
proof (induction xs arbitrary: s)
  case Nil
  then have "s # [] = [] @ m # []" by simp
  then show ?case by fastforce
next
  case (Cons x xs)
  show ?case
  proof (cases "snd x < snd s")
    case True
    with Cons.prems have "fold (\<lambda>x best. if snd x < snd best then x else best) xs x = m" by simp
    from Cons.IH [OF this] obtain pre post where
      d: "x # xs = pre @ m # post" and pre: "\<forall>y\<in>set pre. snd m < snd y"
      and post: "\<forall>y\<in>set post. snd m \<le> snd y" by blast
    have "x \<in> set (pre @ m # post)" by (metis d list.set_intros(1))
    with pre post have "snd m \<le> snd x" by auto
    with True have "snd m < snd s" by simp
    with pre have "\<forall>y\<in>set (s # pre). snd m < snd y" by simp
    moreover from d have "s # x # xs = (s # pre) @ m # post" by simp
    ultimately show ?thesis using post by blast
  next
    case False
    with Cons.prems have "fold (\<lambda>x best. if snd x < snd best then x else best) xs s = m" by simp
    from Cons.IH [OF this] obtain pre post where
      d: "s # xs = pre @ m # post" and pre: "\<forall>y\<in>set pre. snd m < snd y"
      and post: "\<forall>y\<in>set post. snd m \<le> snd y" by blast
    show ?thesis
    proof (cases pre)
      case Nil
      with d have ms: "m = s" and xs: "xs = post" by simp_all
      from ms False post have "\<forall>y\<in>set (x # post). snd m \<le> snd y" by simp
      moreover from ms xs have "s # x # xs = [] @ m # (x # post)" by simp
      ultimately show ?thesis by (metis empty_iff empty_set)
    next
      case (Cons p pre')
      with d have p: "p = s" and xs: "xs = pre' @ m # post" by simp_all
      from pre Cons p have ms: "snd m < snd s" by simp
      with False have "snd m < snd x" by simp
      with pre Cons p have "\<forall>y\<in>set (s # x # pre'). snd m < snd y" by simp
      moreover from xs have "s # x # xs = (s # x # pre') @ m # post" by simp
      ultimately show ?thesis using post by blast
    qed
  qed
qed

lemma fold_max_first:
  "fold (\<lambda>x best. if snd best < snd x then x else best) xs (s :: timestamp \<times> real) = m \<Longrightarrow>
   \<exists>pre post. s # xs = pre @ m # post \<and>
     (\<forall>x\<in>set pre. snd x < snd m) \<and> (\<forall>x\<in>set post. snd x \<le> snd m)"
proof (induction xs arbitrary: s)
  case Nil
  then have "s # [] = [] @ m # []" by simp
  then show ?case by fastforce
next
  case (Cons x xs)
  show ?case
  proof (cases "snd s < snd x")
    case True
    with Cons.prems have "fold (\<lambda>x best. if snd best < snd x then x else best) xs x = m" by simp
    from Cons.IH [OF this] obtain pre post where
      d: "x # xs = pre @ m # post" and pre: "\<forall>y\<in>set pre. snd y < snd m"
      and post: "\<forall>y\<in>set post. snd y \<le> snd m" by blast
    have "x \<in> set (pre @ m # post)" by (metis d list.set_intros(1))
    with pre post have "snd x \<le> snd m" by auto
    with True have "snd s < snd m" by simp
    with pre have "\<forall>y\<in>set (s # pre). snd y < snd m" by simp
    moreover from d have "s # x # xs = (s # pre) @ m # post" by simp
    ultimately show ?thesis using post by blast
  next
    case False
    with Cons.prems have "fold (\<lambda>x best. if snd best < snd x then x else best) xs s = m" by simp
    from Cons.IH [OF this] obtain pre post where
      d: "s # xs = pre @ m # post" and pre: "\<forall>y\<in>set pre. snd y < snd m"
      and post: "\<forall>y\<in>set post. snd y \<le> snd m" by blast
    show ?thesis
    proof (cases pre)
      case Nil
      with d have ms: "m = s" and xs: "xs = post" by simp_all
      from ms False post have "\<forall>y\<in>set (x # post). snd y \<le> snd m" by simp
      moreover from ms xs have "s # x # xs = [] @ m # (x # post)" by simp
      ultimately show ?thesis by (metis empty_iff empty_set)
    next
      case (Cons p pre')
      with d have p: "p = s" and xs: "xs = pre' @ m # post" by simp_all
      from pre Cons p have ms: "snd s < snd m" by simp
      with False have "snd x < snd m" by simp
      with pre Cons p have "\<forall>y\<in>set (s # x # pre'). snd y < snd m" by simp
      moreover from xs have "s # x # xs = (s # x # pre') @ m # post" by simp
      ultimately show ?thesis using post by blast
    qed
  qed
qed

lemma get_min_first_least:
  assumes "get_min ts = Inr (v, t)"
  shows "\<exists>pre post. ts = pre @ (t, v) # post \<and>
           (\<forall>x\<in>set pre. v < snd x) \<and> (\<forall>x\<in>set post. v \<le> snd x)"
proof (cases ts)
  case Nil
  with assms show ?thesis by (simp add: get_min_def)
next
  case (Cons s rest)
  with assms have "fold (\<lambda>x best. if snd x < snd best then x else best) rest s = (t, v)"
    by (simp add: get_min_def Let_def prod_eq_iff)
  from fold_min_first [OF this] Cons show ?thesis by simp
qed

lemma get_max_first_greatest:
  assumes "get_max ts = Inr (v, t)"
  shows "\<exists>pre post. ts = pre @ (t, v) # post \<and>
           (\<forall>x\<in>set pre. snd x < v) \<and> (\<forall>x\<in>set post. snd x \<le> v)"
proof (cases ts)
  case Nil
  with assms show ?thesis by (simp add: get_max_def)
next
  case (Cons s rest)
  with assms have "fold (\<lambda>x best. if snd best < snd x then x else best) rest s = (t, v)"
    by (simp add: get_max_def Let_def prod_eq_iff)
  from fold_max_first [OF this] Cons show ?thesis by simp
qed

text \<open>
  From the sixth sample of the signal on, the slice of \<^verbatim>\<open>bool_check_around_bound\<close> is
  the neighbourhood of the boundary index: the 5 samples before it, the sample itself
  and up to 4 samples after it.  It has at least 6 samples, and the candidate is
  accepted exactly when the extremum recomputed there has the candidate's timestamp
  or the candidate's value.
\<close>

lemma iloc_slice_interior:
  assumes "5 \<le> i" and "i < int (length xs)"
  shows "iloc_slice xs (i - 5) (i + 5) = take 10 (drop (nat i - 5) xs)"
proof -
  from assms(1) obtain k where k: "i = int k" by (metis nonneg_int_cases order_trans zero_le_numeral)
  with assms have k5: "5 \<le> k" "k < length xs" by simp_all
  have a: "slice_bound (length xs) (i - 5) = k - 5"
    using k5 by (simp add: slice_bound_def k)
  have b: "slice_bound (length xs) (i + 5) = min (k + 5) (length xs)"
    using k5 by (simp add: slice_bound_def k min_def) linarith
  have "take (min (k + 5) (length xs) - (k - 5)) (drop (k - 5) xs) = take 10 (drop (k - 5) xs)"
  proof (cases "k + 5 \<le> length xs")
    case True
    with k5 have "min (k + 5) (length xs) - (k - 5) = 10" by simp
    then show ?thesis by simp
  next
    case False
    with k5 have "min (k + 5) (length xs) - (k - 5) = length (drop (k - 5) xs)" by simp
    moreover from False k5 have "length (drop (k - 5) xs) \<le> 10" by simp
    ultimately show ?thesis by simp
  qed
  with a b show ?thesis by (simp add: iloc_slice_def k)
qed

lemma get_loc_range: "get_loc ts b = Inr i \<Longrightarrow> 0 \<le> i \<and> i < int (length ts)"
  by (induction ts arbitrary: i) (auto split: if_splits sum.splits)

lemma bool_check_around_bound_interior:
  assumes "get_loc (index ts) bnd = Inr i" and "5 \<le> i" and "vt = ''min'' \<or> vt = ''max''"
  shows "6 \<le> length (take 10 (drop (nat i - 5) ts)) \<and>
         bool_check_around_bound ts bnd ext vt =
           (case get_extrema (take 10 (drop (nat i - 5) ts)) vt of
              Inl e \<Rightarrow> Inl e
            | Inr new_tup \<Rightarrow> Inr (snd new_tup = snd ext \<or> fst new_tup = fst ext))"
proof -
  let ?nb = "take 10 (drop (nat i - 5) ts)"
  from get_loc_range [OF assms(1)] have r: "i < int (length ts)" by (simp add: index_def)
  have sl: "iloc_slice ts (i - 5) (i + 5) = ?nb" by (rule iloc_slice_interior [OF assms(2) r])
  have len: "6 \<le> length ?nb" using assms(2) r by simp
  then have "?nb \<noteq> []" by auto
  then obtain s rest where c: "?nb = s # rest" by (cases ?nb) auto
  obtain mn where mn: "get_min ?nb = Inr mn" by (simp add: get_min_def c Let_def)
  obtain mx where mx: "get_max ?nb = Inr mx" by (simp add: get_max_def c Let_def)
  have n3: "\<not> length ?nb < 3" using len by simp
  have "bool_check_around_bound ts bnd ext vt =
           (case get_extrema ?nb vt of
              Inl e \<Rightarrow> Inl e
            | Inr new_tup \<Rightarrow> Inr (snd new_tup = snd ext \<or> fst new_tup = fst ext))"
  proof (cases "vt = ''max''")
    case True
    then show ?thesis
      using n3
      by (simp add: bool_check_around_bound_def get_extrema_def sl check_input_def assms(1)
          mn mx bool_is_same_def in_extrema_tup_def float_eq_timestamp_def Let_def)
  next
    case False
    with assms(3) have "vt = ''min''" by simp
    then show ?thesis
      using n3
      by (simp add: bool_check_around_bound_def get_extrema_def sl check_input_def assms(1)
          mn mx bool_is_same_def in_extrema_tup_def float_eq_timestamp_def Let_def)
  qed
  with len show ?thesis by simp
qed

lemma on_boundary_trace_unfold:
  "on_boundary_trace ts win ext vt =
     on_boundary_loop ts win ext vt [(0, fst win), (1, snd win)] True []"
  by (simp add: on_boundary_trace_def)

text \<open>
  Claim C5.  When the candidate's timestamp differs from the sample that stands for
  the start edge and from the sample that stands for the end edge, \<^verbatim>\<open>on_boundary\<close>
  accepts the candidate and \<^verbatim>\<open>bool_check_around_bound\<close> is not called for either
  edge.  And the end edge is examined only if the start edge was found acceptable: its
  sample exists and, where the candidate lies on it, the re-check returned true.
\<close>

theorem on_boundary_interior_and_short_circuit:
  "(edge_sample ts win 0 (fst win) = Inr b0 \<and> b0 \<noteq> snd ext \<and>
    edge_sample ts win 1 (snd win) = Inr b1 \<and> b1 \<noteq> snd ext
      \<longrightarrow> on_boundary ts win ext vt = Inr True \<and>
          fst (on_boundary_trace ts win ext vt) = [Examined 0, Examined 1])
   \<and> (Examined 1 \<in> set (fst (on_boundary_trace ts win ext vt))
      \<longrightarrow> (\<exists>b. edge_sample ts win 0 (fst win) = Inr b \<and>
               (b = snd ext \<longrightarrow> bool_check_around_bound ts b ext vt = Inr True)))"
proof (intro conjI impI)
  assume h: "edge_sample ts win 0 (fst win) = Inr b0 \<and> b0 \<noteq> snd ext \<and>
    edge_sample ts win 1 (snd win) = Inr b1 \<and> b1 \<noteq> snd ext"
  then have "on_boundary_trace ts win ext vt = ([Examined 0, Examined 1], Inr True)"
    by (simp add: on_boundary_trace_unfold bool_is_same_def)
  then show "on_boundary ts win ext vt = Inr True"
    and "fst (on_boundary_trace ts win ext vt) = [Examined 0, Examined 1]"
    by (simp_all add: on_boundary_def)
next
  assume ex: "Examined 1 \<in> set (fst (on_boundary_trace ts win ext vt))"
  show "\<exists>b. edge_sample ts win 0 (fst win) = Inr b \<and>
               (b = snd ext \<longrightarrow> bool_check_around_bound ts b ext vt = Inr True)"
  proof (cases "edge_sample ts win 0 (fst win)")
    case (Inl e)
    with ex show ?thesis by (simp add: on_boundary_trace_unfold)
  next
    case (Inr b)
    show ?thesis
    proof (cases "b = snd ext")
      case False
      with Inr show ?thesis by simp
    next
      case True
      show ?thesis
      proof (cases "bool_check_around_bound ts b ext vt")
        case (Inl e)
        with ex Inr True show ?thesis
          by (simp add: on_boundary_trace_unfold bool_is_same_def)
      next
        case ok: (Inr ok)
        with ex Inr True have "ok"
          by (cases ok) (simp_all add: on_boundary_trace_unfold bool_is_same_def)
        with ok Inr show ?thesis by auto
      qed
    qed
  qed
qed

theorem on_boundary_interior_and_short_circuit_witness:
  "edge_sample wave_signal (0, 19800000000000) 0 0 = Inr 0 \<and>
   edge_sample wave_signal (0, 19800000000000) 1 19800000000000 = Inr 19800000000000 \<and>
   on_boundary wave_signal (0, 19800000000000) (1, 10800000000000) ''min'' = Inr True \<and>
   fst (on_boundary_trace wave_signal (0, 19800000000000) (1, 10800000000000) ''min'')
     = [Examined 0, Examined 1]"
proof -
  have e0: "edge_sample wave_signal (0, 19800000000000) 0 0 = Inr 0"
    by (simp add: edge_sample_def wave_signal_def index_def)
  have e1: "edge_sample wave_signal (0, 19800000000000) 1 19800000000000 = Inr 19800000000000"
    by (simp add: edge_sample_def wave_signal_def index_def)
  from on_boundary_interior_and_short_circuit
         [of wave_signal "(0, 19800000000000)" 0 "(1, 10800000000000)" 19800000000000 "''min''"]
       e0 e1
  show ?thesis by simp
qed

text \<open>
  Claim C4.  When the candidate lies on an edge sample, the validator looks at the
  samples around the boundary index, at most 5 on each side; it rejects the candidate
  when these are fewer than 3, and otherwise accepts it exactly when the extremum
  recomputed among them has the candidate's timestamp or the candidate's value.

  The code takes the positions \<open>bound_idx - 5\<close> to \<open>bound_idx + 5\<close> as a Python slice.
  Within the first five samples of the signal the lower position is negative and
  counts from the end.  In \<open>rising_signal\<close> the first sample is the smallest of the
  first six, so the claim accepts it as a minimum on the boundary; the slice of the
  code is empty there and the candidate is rejected.
\<close>

theorem bool_check_around_bound_rejects_first_sample:
  "bool_check_around_bound rising_signal 0 (1, 0) ''min'' = Inr False \<and>
   iloc_slice rising_signal (0 - 5) (0 + 5) = [] \<and>
   get_min (take 6 rising_signal) = Inr (1, 0)"
  by code_simp

subsection \<open>The extraction pass\<close>

text \<open>
  The test that skips a day compares the two values only when both are different
  from zero.  So every row of the table has its minimum below or equal to its maximum
  unless one of the two is zero.
\<close>

lemma skip_day_nonzero:
  "a \<noteq> 0 \<Longrightarrow> b \<noteq> 0 \<Longrightarrow> skip_day (Some a) (Some b) = (b < a)"
  by (simp add: skip_day_def truthy_def)

lemma skip_day_zero:
  "skip_day (Some a) (Some 0) = False" "skip_day (Some 0) (Some b) = False"
  by (simp_all add: skip_day_def truthy_def)

lemma skip_day_missing:
  "skip_day None b = False" "skip_day a None = False"
  by (simp_all add: skip_day_def truthy_def)

lemma new_row_ordered:
  "\<not> skip_day minVal maxVal \<Longrightarrow>
     ordered_unless_zero \<lparr>Date = day, min_val = cell_of_val minVal, min_time = mt,
                          max_val = cell_of_val maxVal, max_time = xt\<rparr>"
  by (cases minVal; cases maxVal)
     (auto simp: ordered_unless_zero_def cell_of_val_def skip_day_def truthy_def
           split: if_splits)

lemma extrema_loop_ordered:
  "extrema_loop pd cfg ts days cache acc tape = Inr (rows, tape') \<Longrightarrow>
     list_all ordered_unless_zero acc \<Longrightarrow> list_all ordered_unless_zero rows"
proof (induction days arbitrary: cache acc tape)
  case Nil
  then show ?case by simp
next
  case (Cons day days)
  from Cons.prems(1) obtain occurs tape0 minVal minTime maxVal maxTime tape1 where
    step: "(if predictTiming cfg
            then predicted_extrema pd cfg ts day occurs tape0
            else daily_extrema pd cfg ts day tape0)
             = Inr (((minVal, minTime), (maxVal, maxTime)), tape1)"
    and rest: "extrema_loop pd cfg ts days
                 (if predictTiming cfg then Some occurs else cache)
                 (if skip_day minVal maxVal then acc
                  else acc @ [\<lparr>Date = day, min_val = cell_of_val minVal,
                                min_time = cell_of_time minTime,
                                max_val = cell_of_val maxVal,
                                max_time = cell_of_time maxTime\<rparr>])
                 tape1 = Inr (rows, tape')"
    by (simp split: sum.splits prod.splits)
  have "list_all ordered_unless_zero
          (if skip_day minVal maxVal then acc
           else acc @ [\<lparr>Date = day, min_val = cell_of_val minVal,
                         min_time = cell_of_time minTime,
                         max_val = cell_of_val maxVal,
                         max_time = cell_of_time maxTime\<rparr>])"
    using Cons.prems(2) by (simp add: new_row_ordered)
  from Cons.IH [OF rest this] show ?case .
qed

lemma apply_threshold_subset:
  "apply_threshold thr df = Inr df' \<Longrightarrow> set df' \<subseteq> set df"
  by (auto simp: apply_threshold_def drop_labels_def split: option.splits sum.splits)

lemma find_diurnal_extrema_ordered_unless_zero:
  assumes "find_diurnal_extrema pd cfg ts tape = Inr (df, tape')"
  shows "list_all ordered_unless_zero df"
proof -
  from assms obtain rows where
    l: "extrema_loop pd cfg ts (days_of ts) None [] tape = Inr (rows, tape')"
    and a: "apply_threshold (threshold cfg) rows = Inr df"
    by (auto simp: find_diurnal_extrema_def split: sum.splits prod.splits if_splits)
  from extrema_loop_ordered [OF l] have "list_all ordered_unless_zero rows" by simp
  with apply_threshold_subset [OF a] show ?thesis by (auto simp: list_all_iff)
qed

text \<open>
  The run on \<open>late_signal\<close>, step by step.  The day is resolved on the grid of 10
  seconds to 00:00:00 - 23:59:50, which holds the first three samples; their minimum
  is 5 at 23:59:41, an interior sample.  The window of 18 hours after it is resolved
  on the same grid to 23:59:50 - 17:59:40, which holds the last three samples; their
  maximum is 0 at 23:59:53, an interior sample.
\<close>

lemma late_signal_day_window:
  "to_exact_indexing pd (WPeriod 0) late_signal [2, 1] = Inr (Some (0, 86390000000000), [1])"
  by (simp add: to_exact_indexing_def window_bounds_def bound_slice_def label_slice_def
      late_signal_def start_time_def end_time_def index_def window_res_def NaT_def
      components_minutes_def components_seconds_def Timestamp_ceil_def Timestamp_floor_def)

lemma late_signal_day_minimum:
  "get_real_extrema pd late_signal (WPeriod 0) ''min'' [2, 1]
     = Inr ((Some 5, Some 86381000000000), [1])"
  unfolding get_real_extrema_def late_signal_day_window
  by (simp add: check_input_def get_extrema_def get_min_def NaT_def
      loc_slice_def label_slice_def late_signal_def on_boundary_def on_boundary_trace_def
      edge_sample_def get_index_of_bound_def index_def bool_is_same_def)

lemma late_signal_after_window:
  "to_exact_indexing pd (after_minimum (Some 86381000000000)) late_signal [1]
     = Inr (Some (86390000000000, 151180000000000), [])"
  by (simp add: to_exact_indexing_def window_bounds_def check_length_def
      bound_slice_def label_slice_def NaT_def
      late_signal_def index_def window_res_def
      components_minutes_def components_seconds_def Timestamp_ceil_def Timestamp_floor_def)

lemma late_signal_after_maximum:
  "get_real_extrema pd late_signal (after_minimum (Some 86381000000000)) ''max'' [1]
     = Inr ((Some 0, Some 86393000000000), [])"
  unfolding get_real_extrema_def late_signal_after_window
  by (simp add: check_input_def get_extrema_def get_max_def NaT_def
      loc_slice_def label_slice_def late_signal_def on_boundary_def on_boundary_trace_def
      edge_sample_def get_index_of_bound_def index_def bool_is_same_def)

text \<open>
  Claim C1.  Every day that the extraction pass retains in the table has
  \<open>min_val \<le> max_val\<close> when both are present; a day whose minimum exceeds its
  maximum is discarded.

  The code tests \<^verbatim>\<open>maxVal and minVal and minVal > maxVal\<close>, and a value \<open>0.0\<close> is false
  in Python like \<^verbatim>\<open>None\<close>.  On \<open>late_signal\<close>, with the choices 3 and 2 of
  \<^verbatim>\<open>random.randint\<close> (the adjacent pair 10 seconds apart, both times), the minimum of the
  day is 5 at 23:59:41, the maximum of the 18 hours after it is 0 at 23:59:53, and the
  day is retained, whatever the parameters of the library.
\<close>

theorem find_diurnal_extrema_retains_min_above_max:
  "find_diurnal_extrema pd default_config late_signal [2, 1] =
     Inr ([\<lparr>Date = 0, min_val = PFloat 5, min_time = PTimestamp 86381000000000,
            max_val = PFloat 0, max_time = PTimestamp 86393000000000\<rparr>], [])"
proof -
  have d: "days_of late_signal = [0]"
    by (simp add: days_of_def index_def late_signal_def to_period_def)
  have e: "daily_extrema pd default_config late_signal 0 [2, 1] =
      Inr (((Some 5, Some 86381000000000), (Some 0, Some 86393000000000)), [])"
    unfolding daily_extrema_def late_signal_day_minimum
    by (simp add: late_signal_after_maximum default_config_def
        del: One_nat_def after_minimum.simps)
  have s: "\<not> skip_day (Some 5) (Some 0)" by (simp add: skip_day_def truthy_def)
  have c: "predictTiming default_config = False" "threshold default_config = None"
    by (simp_all add: default_config_def)
  show ?thesis
    unfolding find_diurnal_extrema_def d
    by (simp add: e s c apply_threshold_def cell_of_val_def cell_of_time_def
        del: One_nat_def)
qed

text \<open>
  A day of fewer than 3 samples in a signal of fewer than 3 samples: the search of the
  minimum finds nothing, the window \<^verbatim>\<open>(None, NaT)\<close> after it resolves to \<^verbatim>\<open>None\<close> as
  well, and the day enters the table with its four fields \<^verbatim>\<open>None\<close>.
\<close>

lemma short_signal_day_no_data:
  "to_exact_indexing pd (WPeriod 0) short_signal tape = Inr (None, tape)"
  by (simp add: to_exact_indexing_def window_bounds_def bound_slice_def label_slice_def
      short_signal_def start_time_def end_time_def NaT_def)

lemma short_signal_after_no_data:
  "to_exact_indexing pd (after_minimum None) short_signal tape = Inr (None, tape)"
  by (simp add: to_exact_indexing_def window_bounds_def check_length_def bound_slice_def
      label_slice_def short_signal_def)

lemma find_diurnal_extrema_short_signal:
  "find_diurnal_extrema pd default_config short_signal tape =
     Inr ([\<lparr>Date = 0, min_val = PNone, min_time = PNone,
            max_val = PNone, max_time = PNone\<rparr>], tape)"
proof -
  have g: "get_real_extrema pd short_signal (WPeriod 0) ''min'' tape = Inr ((None, None), tape)"
    by (simp add: get_real_extrema_def check_input_def short_signal_day_no_data)
  have h: "get_real_extrema pd short_signal (after_minimum None) ''max'' tape
             = Inr ((None, None), tape)"
    by (simp only: get_real_extrema_def short_signal_after_no_data) (simp add: check_input_def)
  have d: "days_of short_signal = [0]"
    by (simp add: days_of_def index_def short_signal_def to_period_def)
  have c: "predictTiming default_config = False" "threshold default_config = None"
    "minfirst default_config = True" "maxnextday default_config = True"
    by (simp_all add: default_config_def)
  have e: "daily_extrema pd default_config short_signal 0 tape
             = Inr (((None, None), (None, None)), tape)"
    unfolding daily_extrema_def g by (simp add: c h del: after_minimum.simps)
  show ?thesis
    unfolding find_diurnal_extrema_def d
    by (simp add: e c apply_threshold_def cell_of_val_def cell_of_time_def skip_day_def
        truthy_def)
qed

text \<open>
  In a signal of more than 2 samples the window \<^verbatim>\<open>(None, NaT)\<close> holds the whole
  signal, and \<^verbatim>\<open>start.ceil\<close> is read on \<^verbatim>\<open>None\<close>.
\<close>

lemma label_slice_open: "label_slice ts None (Some NaT) = ts"
  by (simp add: label_slice_def)

lemma to_exact_indexing_after_no_minimum:
  assumes "2 < length ts"
  shows "to_exact_indexing pd (after_minimum None) ts tape = Inl PyAttributeError"
proof -
  have b: "window_bounds pd (after_minimum None) ts = Inr (BNone, BNaT)"
    by (simp add: window_bounds_def check_length_def)
  have s: "bound_slice pd ts BNone BNaT = Inr ts"
    by (simp add: bound_slice_def label_slice_open)
  from to_exact_indexing_choice [OF b s assms, of tape] show ?thesis
    by auto
qed

text \<open>
  The day of \<open>rising_signal\<close> is resolved on the grid of 30 minutes to
  00:00:00 - 23:30:00.  Its minimum is the first sample of the signal, on the start
  edge of the window, and \<^verbatim>\<open>bool_check_around_bound\<close> rejects it.
\<close>

lemma rising_signal_day_window:
  "to_exact_indexing pd (WPeriod 0) rising_signal tape
     = Inr (Some (0, 84600000000000), snd (randint 1 11 tape))"
proof -
  have b: "window_bounds pd (WPeriod 0) rising_signal
             = Inr (BTimestamp (start_time 0), BTimestamp (end_time 0))"
    by (simp add: window_bounds_def)
  have s: "bound_slice pd rising_signal (BTimestamp (start_time 0)) (BTimestamp (end_time 0))
             = Inr rising_signal"
    by (simp add: bound_slice_def label_slice_def rising_signal_def start_time_def
        end_time_def NaT_def)
  have l: "2 < length rising_signal" "length rising_signal = 12"
    by (simp_all add: rising_signal_def)
  show ?thesis
    using to_exact_indexing_regular [OF b s l(1), of 1800000000000 tape]
      half_hour_gaps [OF refl]
    by (simp add: l(2) Timestamp_ceil_def Timestamp_floor_def start_time_def end_time_def)
qed

lemma rising_signal_day_minimum:
  "get_real_extrema pd rising_signal (WPeriod 0) ''min'' tape
     = Inr ((None, None), snd (randint 1 11 tape))"
  unfolding get_real_extrema_def rising_signal_day_window
  by (simp add: check_input_def get_extrema_def get_min_def NaT_def
      loc_slice_def label_slice_def rising_signal_def on_boundary_def on_boundary_trace_def
      edge_sample_def get_index_of_bound_def index_def bool_is_same_def
      bool_check_around_bound_def iloc_slice_def slice_bound_def)

text \<open>
  Claim C3.  A search of one day that finds nothing yields \<^verbatim>\<open>None\<close> fields for the
  day and raises nothing; only \<open>InvalidWindow\<close>, \<open>InvalidCalibration\<close> and
  \<open>InvalidMode\<close> abort the extraction.  In particular, with \<^verbatim>\<open>minfirst\<close> and
  \<^verbatim>\<open>maxnextday\<close>, a day whose minimum is not found still completes.

  In the code the window of the maximum is \<^verbatim>\<open>(minTime, minTime + pd.Timedelta(hours=18))\<close>
  whatever \<^verbatim>\<open>minTime\<close> is.  The search of the minimum of the day of \<open>rising_signal\<close>
  returns \<^verbatim>\<open>(None, None)\<close>; the window of the maximum is then \<^verbatim>\<open>(None, NaT)\<close>, it holds
  the twelve samples of the signal, and \<^verbatim>\<open>start.ceil\<close> raises \<^verbatim>\<open>AttributeError\<close>: the
  extraction aborts, for every choice of \<^verbatim>\<open>random.randint\<close> and all parameters of the
  library.
\<close>

theorem find_diurnal_extrema_raises_when_minimum_not_found:
  "get_real_extrema pd rising_signal (WPeriod 0) ''min'' tape
     = Inr ((None, None), snd (randint 1 11 tape)) \<and>
   find_diurnal_extrema pd default_config rising_signal tape = Inl PyAttributeError"
proof -
  have l: "2 < length rising_signal"
    by (simp add: rising_signal_def)
  have h: "get_real_extrema pd rising_signal (after_minimum None) ''max'' tape'
             = Inl PyAttributeError" for tape'
    by (simp only: get_real_extrema_def to_exact_indexing_after_no_minimum [OF l])
       (simp add: check_input_def)
  have d: "days_of rising_signal = [0]"
    by (simp add: days_of_def index_def rising_signal_def to_period_def)
  have c: "predictTiming default_config = False"
    "minfirst default_config = True" "maxnextday default_config = True"
    by (simp_all add: default_config_def)
  have e: "daily_extrema pd default_config rising_signal 0 tape = Inl PyAttributeError"
    unfolding daily_extrema_def rising_signal_day_minimum
    by (simp add: c h del: after_minimum.simps)
  have "find_diurnal_extrema pd default_config rising_signal tape = Inl PyAttributeError"
    unfolding find_diurnal_extrema_def d by (simp add: e c)
  with rising_signal_day_minimum show ?thesis by simp
qed

subsection \<open>The occurrence predictor\<close>

text \<open>
  The mean of a list of hours is the rounding of the library applied to the quotient
  of its sum by its length.
\<close>

lemma mean_occurance_nonempty:
  "occurance_list \<noteq> [] \<Longrightarrow>
     mean_occurance pd occurance_list =
       Inr (float_round3 pd
              (of_int (sum_list occurance_list) / of_int (int (length occurance_list))))"
  by (simp add: mean_occurance_def)

lemma short_signal_calibration_no_data:
  "to_exact_indexing pd (WInt 4) short_signal tape = Inr (None, tape)"
  by (simp add: to_exact_indexing_def window_bounds_def bound_slice_def label_slice_def
      short_signal_def make_end_of_day_def start_time_def to_period_def NaT_def)

text \<open>
  Claim C8.  The predictor returns, for the minimum and for the maximum, the mean of
  the rounded hours of the extrema found, rounded to 3 decimal places, and it fails
  with \<open>InvalidCalibration\<close> whenever the calibration window resolves to no data.

  In the code the result of \<^verbatim>\<open>to_exact_indexing\<close> is unpacked into two names before
  the test that raises the calibration error.  The calibration window of 4 days on
  \<open>short_signal\<close> resolves to \<^verbatim>\<open>None\<close>, and \<^verbatim>\<open>predict_extrema\<close> raises \<^verbatim>\<open>TypeError\<close>.
\<close>

theorem predict_extrema_no_data_raises_type_error:
  "to_exact_indexing pd (WInt 4) short_signal tape = Inr (None, tape) \<and>
   predict_extrema pd (default_config\<lparr>predictTiming := True\<rparr>) short_signal tape
     = Inl PyTypeError"
  by (simp add: predict_extrema_def short_signal_calibration_no_data default_config_def)

subsection \<open>The manual override\<close>

text \<open>
  What the override does with an explicit tuple of two elements for the maximum of a
  day of the table: the assignment of the tuple to the cell \<open>max_val\<close> raises, and
  the table is not changed.
\<close>

lemma new_pick_tuple:
  "new_pick pd ts day which (Tuple xs) [] = Inr (Tuple xs, PNone)"
  by (simp add: new_pick_def)

lemma change_extrema_picks_pair_raises:
  assumes "d \<in> set (map Date df)"
  shows "change_extrema_picks pd ts df (DayPeriod d) ''max'' (Tuple [v, t]) [] False
           = Inl PyValueError"
  using assms
  by (simp add: change_extrema_picks_def check_input_def new_pick_tuple set_pick_def)

text \<open>
  Claim C2.  For a day of the table and a new pair \<open>(v, t)\<close>,
  \<^verbatim>\<open>change_extrema_picks(day, "max", new_extrema=(v, t))\<close> sets the day's \<open>max_val\<close> to
  \<open>v\<close> and its \<open>max_time\<close> to \<open>t\<close> and changes nothing else.

  In the code \<^verbatim>\<open>value\<close> is bound to the whole tuple and \<^verbatim>\<open>time\<close> to \<^verbatim>\<open>None\<close>.  For the
  second day of \<open>example_table\<close> and the pair \<open>(33.2, t)\<close> the assignment
  \<^verbatim>\<open>self.df.loc[idx, 'max_val'] = value\<close> raises \<^verbatim>\<open>ValueError\<close>: the call fails, and
  neither \<open>max_val\<close> nor \<open>max_time\<close> of the day is set.
\<close>

theorem change_extrema_picks_pair_raises_value_error:
  "new_pick pd ts (DayPeriod 18263) ''max''
     (Tuple [PFloat (332 / 10), PTimestamp 1577977200000000000]) []
     = Inr (Tuple [PFloat (332 / 10), PTimestamp 1577977200000000000], PNone) \<and>
   change_extrema_picks pd ts example_table (DayPeriod 18263) ''max''
     (Tuple [PFloat (332 / 10), PTimestamp 1577977200000000000]) [] False
     = Inl PyValueError"
  by (simp add: change_extrema_picks_def check_input_def new_pick_def set_pick_def
      example_table_def)

end
